theory Spec2Isabelle
  imports Complex_Main
begin

section \<open>Conventions of the model\<close>

text \<open>
  The development embeds the classification engine of the repository: the three
  analyzers of \<^verbatim>\<open>src/analyzers\<close>, the two ensemble combiners
  (\<^verbatim>\<open>EnsembleAnalyzer.analyze\<close> and \<^verbatim>\<open>SentimentAnalyzer._ensemble_analyze\<close>),
  the batch functions of \<^verbatim>\<open>SentimentAnalyzer\<close> and the
  \<^verbatim>\<open>TextPreprocessor\<close>.

  \<^item> A Python \<^verbatim>\<open>str\<close> is a \<open>string\<close>: a list of characters, each read as one
    code point below 256. The character classes below (\<^verbatim>\<open>str.isspace\<close>, the regular
    expression classes \<^verbatim>\<open>\s\<close> and \<^verbatim>\<open>\w\<close>, \<^verbatim>\<open>str.lower\<close>) are the ones Python
    uses on that range.
  \<^item> A Python \<^verbatim>\<open>float\<close> is a \<open>real\<close>: every arithmetic statement is about exact
    arithmetic, rounding is not modelled.
  \<^item> A raised exception is the \<open>Inl\<close> side of a sum; \<^verbatim>\<open>try/except Exception\<close> is a
    case distinction on it.
  \<^item> The third-party libraries (VADER, TextBlob, the transformers pipeline, NLTK) are
    not part of the repository. They are parameters of the model: functions that
    return a value or raise.
\<close>

datatype error = ValueError string | LibraryError string

section \<open>Text primitives\<close>

definition code :: "char \<Rightarrow> nat" where
  "code c = of_char c"

definition isspace :: "char \<Rightarrow> bool" where
  \<comment> \<open>\<^verbatim>\<open>str.isspace\<close> and the class \<^verbatim>\<open>\s\<close> of \<^verbatim>\<open>re\<close> on code points below 256.\<close>
  "isspace c = (let n = code c in
     (9 \<le> n \<and> n \<le> 13) \<or> (28 \<le> n \<and> n \<le> 32) \<or> n = 133 \<or> n = 160)"

definition lower_char :: "char \<Rightarrow> char" where
  \<comment> \<open>\<^verbatim>\<open>str.lower\<close> on one code point below 256: A-Z and the accented capitals
      0xC0-0xDE (without the multiplication sign 0xD7) move up by 32.\<close>
  "lower_char c = (let n = code c in
     if (65 \<le> n \<and> n \<le> 90) \<or> (192 \<le> n \<and> n \<le> 222 \<and> n \<noteq> 215)
     then char_of (n + 32) else c)"

definition lower :: "string \<Rightarrow> string" where
  "lower s = map lower_char s"

fun startswith :: "string \<Rightarrow> string \<Rightarrow> bool" where
  "startswith s [] = True"
| "startswith [] (p # ps) = False"
| "startswith (c # cs) (p # ps) = (c = p \<and> startswith cs ps)"

fun contains :: "string \<Rightarrow> string \<Rightarrow> bool" where
  \<comment> \<open>\<^verbatim>\<open>word in s\<close>: \<open>contains word s\<close>.\<close>
  "contains w [] = (w = [])"
| "contains w (c # cs) = (startswith (c # cs) w \<or> contains w cs)"

fun split_from :: "string \<Rightarrow> string \<Rightarrow> string list" where
  \<comment> \<open>\<^verbatim>\<open>str.split()\<close> with the word read so far.\<close>
  "split_from w [] = (if w = [] then [] else [w])"
| "split_from w (c # cs) =
     (if isspace c then (if w = [] then split_from [] cs else w # split_from [] cs)
      else split_from (w @ [c]) cs)"

definition split :: "string \<Rightarrow> string list" where
  "split s = split_from [] s"

section \<open>Labels and score dictionaries\<close>

datatype SentimentLabel = POSITIVE | NEGATIVE | NEUTRAL

text \<open>
  The dictionaries \<^verbatim>\<open>{'positive': _, 'negative': _, 'neutral': _}\<close> have exactly these
  three keys, inserted in this order; a record holds the values, \<open>keys\<close> the order in
  which Python iterates them.
\<close>

record score_dict =
  positive :: real
  negative :: real
  neutral :: real

definition keys :: "SentimentLabel list" where
  "keys = [POSITIVE, NEGATIVE, NEUTRAL]"

fun get :: "score_dict \<Rightarrow> SentimentLabel \<Rightarrow> real" where
  "get d POSITIVE = positive d"
| "get d NEGATIVE = negative d"
| "get d NEUTRAL = neutral d"

definition sum_values :: "score_dict \<Rightarrow> real" where
  \<comment> \<open>\<^verbatim>\<open>sum(d.values())\<close>\<close>
  "sum_values d = 0 + positive d + negative d + neutral d"

fun max_from :: "('a \<Rightarrow> real) \<Rightarrow> 'a \<Rightarrow> 'a list \<Rightarrow> 'a" where
  \<comment> \<open>The loop of Python's \<^verbatim>\<open>max(iterable, key=f)\<close>: the running maximum is replaced
      only by an item whose key is strictly greater.\<close>
  "max_from f best [] = best"
| "max_from f best (x # xs) = max_from f (if f best < f x then x else best) xs"

definition max_key :: "score_dict \<Rightarrow> SentimentLabel" where
  \<comment> \<open>\<^verbatim>\<open>max(d, key=d.get)\<close>\<close>
  "max_key d = max_from (get d) (hd keys) (tl keys)"

text \<open>
  What every analyzer returns: the keys \<^verbatim>\<open>sentiment\<close>, \<^verbatim>\<open>confidence\<close> and
  \<^verbatim>\<open>scores\<close> of its result dictionary. The further keys (\<^verbatim>\<open>raw_scores\<close>,
  \<^verbatim>\<open>compound\<close>, \<^verbatim>\<open>polarity\<close>, \<^verbatim>\<open>subjectivity\<close>, \<^verbatim>\<open>raw_results\<close>, \<^verbatim>\<open>fallback\<close>) are
  read by no caller in the engine and are left out.
\<close>

record analysis =
  sentiment :: SentimentLabel
  confidence :: real
  scores :: score_dict

type_synonym analyzer = "string \<Rightarrow> error + analysis"

section \<open>VaderAnalyzer\<close>

text \<open>The dictionary returned by the library's \<^verbatim>\<open>polarity_scores\<close>.\<close>

record vader_scores =
  neg :: real
  neu :: real
  pos :: real
  compound :: real

definition vader_result :: "vader_scores \<Rightarrow> analysis" where
  "vader_result s =
     (if compound s \<ge> 5 / 100 then
        \<lparr>sentiment = POSITIVE, confidence = pos s,
         scores = \<lparr>positive = pos s, negative = neg s, neutral = neu s\<rparr>\<rparr>
      else if compound s \<le> - (5 / 100) then
        \<lparr>sentiment = NEGATIVE, confidence = neg s,
         scores = \<lparr>positive = pos s, negative = neg s, neutral = neu s\<rparr>\<rparr>
      else
        \<lparr>sentiment = NEUTRAL, confidence = neu s,
         scores = \<lparr>positive = pos s, negative = neg s, neutral = neu s\<rparr>\<rparr>)"

definition vader_analyze :: "(string \<Rightarrow> error + vader_scores) \<Rightarrow> analyzer" where
  "vader_analyze polarity_scores txt =
     (case polarity_scores txt of Inl e \<Rightarrow> Inl e | Inr s \<Rightarrow> Inr (vader_result s))"

section \<open>TextBlobAnalyzer\<close>

definition textblob_sentiment :: "real \<Rightarrow> SentimentLabel \<times> real" where
  \<comment> \<open>label and confidence from the polarity\<close>
  "textblob_sentiment polarity =
     (if polarity > 1 / 10 then (POSITIVE, polarity)
      else if polarity < - (1 / 10) then (NEGATIVE, \<bar>polarity\<bar>)
      else (NEUTRAL, 1 - \<bar>polarity\<bar>))"

definition textblob_raw_scores :: "real \<Rightarrow> score_dict" where
  \<comment> \<open>\<^verbatim>\<open>pos_score\<close>, \<^verbatim>\<open>neg_score\<close>, \<^verbatim>\<open>neu_score\<close> before they are divided by their total\<close>
  "textblob_raw_scores polarity =
     (let normalized_polarity = (polarity + 1) / 2 in
      if polarity > 0 then
        \<lparr>positive = normalized_polarity, negative = 1 - normalized_polarity,
         neutral = (1 - \<bar>polarity\<bar>) * (5 / 10)\<rparr>
      else if polarity < 0 then
        \<lparr>positive = normalized_polarity, negative = 1 - normalized_polarity,
         neutral = (1 - \<bar>polarity\<bar>) * (5 / 10)\<rparr>
      else
        \<lparr>positive = 33 / 100, negative = 33 / 100, neutral = 34 / 100\<rparr>)"

definition textblob_scores :: "real \<Rightarrow> score_dict" where
  "textblob_scores polarity =
     (let raw = textblob_raw_scores polarity;
          total = positive raw + negative raw + neutral raw in
      if total > 0 then
        \<lparr>positive = positive raw / total, negative = negative raw / total,
         neutral = neutral raw / total\<rparr>
      else raw)"

definition textblob_result :: "real \<Rightarrow> analysis" where
  "textblob_result polarity =
     \<lparr>sentiment = fst (textblob_sentiment polarity),
      confidence = snd (textblob_sentiment polarity),
      scores = textblob_scores polarity\<rparr>"

definition textblob_analyze :: "(string \<Rightarrow> error + real \<times> real) \<Rightarrow> analyzer" where
  \<comment> \<open>The library gives \<^verbatim>\<open>(polarity, subjectivity)\<close> for the text, or raises.\<close>
  "textblob_analyze blob_sentiment txt =
     (case blob_sentiment txt of
        Inl e \<Rightarrow> Inl e
      | Inr (polarity, subjectivity) \<Rightarrow> Inr (textblob_result polarity))"

section \<open>TransformerAnalyzer\<close>

definition parse_result :: "score_dict \<Rightarrow> string \<times> real \<Rightarrow> score_dict" where
  \<comment> \<open>one iteration of the loop of \<^verbatim>\<open>_parse_results\<close>\<close>
  "parse_result d r =
     (let label = lower (fst r); score = snd r in
      if contains ''pos'' label \<or> label = ''label_2'' then d\<lparr>positive := score\<rparr>
      else if contains ''neg'' label \<or> label = ''label_0'' then d\<lparr>negative := score\<rparr>
      else if contains ''neu'' label \<or> label = ''label_1'' then d\<lparr>neutral := score\<rparr>
      else if label = ''positive'' then d\<lparr>positive := score\<rparr>
      else if label = ''negative'' then d\<lparr>negative := score\<rparr>
      else if label = ''neutral'' then d\<lparr>neutral := score\<rparr>
      else d)"

definition parse_results :: "(string \<times> real) list \<Rightarrow> score_dict" where
  "parse_results results =
     (let d = foldl parse_result \<lparr>positive = 0, negative = 0, neutral = 0\<rparr> results in
      if neutral d = 0 then
        (let total = positive d + negative d in
         if total > 0 then
           \<lparr>positive = positive d * (1 - 1 / 10), negative = negative d * (1 - 1 / 10),
            neutral = 1 / 10\<rparr>
         else d)
      else d)"

definition positive_words :: "string list" where
  "positive_words = [''good'', ''great'', ''excellent'', ''amazing'', ''wonderful'',
     ''fantastic'', ''love'', ''like'', ''best'', ''awesome'']"

definition negative_words :: "string list" where
  "negative_words = [''bad'', ''terrible'', ''awful'', ''horrible'', ''hate'',
     ''worst'', ''poor'', ''disappointing'', ''sad'', ''angry'']"

definition fallback_analysis :: "string \<Rightarrow> analysis" where
  "fallback_analysis txt =
     (let text_lower = lower txt;
          pos_count = length (filter (\<lambda>word. contains word text_lower) positive_words);
          neg_count = length (filter (\<lambda>word. contains word text_lower) negative_words);
          total_words = length (split txt)
      in
      if pos_count > neg_count then
        (let confidence = min (8 / 10) (real pos_count / max (real total_words * (1 / 10)) 1) in
         \<lparr>sentiment = POSITIVE, confidence = confidence,
          scores = \<lparr>positive = confidence, negative = (1 - confidence) * (3 / 10),
                    neutral = (1 - confidence) * (7 / 10)\<rparr>\<rparr>)
      else if neg_count > pos_count then
        (let confidence = min (8 / 10) (real neg_count / max (real total_words * (1 / 10)) 1) in
         \<lparr>sentiment = NEGATIVE, confidence = confidence,
          scores = \<lparr>positive = (1 - confidence) * (3 / 10), negative = confidence,
                    neutral = (1 - confidence) * (7 / 10)\<rparr>\<rparr>)
      else
        \<lparr>sentiment = NEUTRAL, confidence = 6 / 10,
         scores = \<lparr>positive = 3 / 10, negative = 3 / 10, neutral = 4 / 10\<rparr>\<rparr>)"

definition max_length :: nat where
  "max_length = 512"

definition truncate_text :: "string \<Rightarrow> string" where
  \<comment> \<open>\<^verbatim>\<open>if len(text) > max_length: text = text[:max_length]\<close>\<close>
  "truncate_text txt = (if length txt > max_length then take max_length txt else txt)"

text \<open>
  \<open>pipeline\<close> is the field \<^verbatim>\<open>self.pipeline\<close>: \<open>None\<close> when the model could not be
  loaded, otherwise the loaded model, which returns the first element of its output (a
  list of label and score) or raises. \<^verbatim>\<open>analyze\<close> returns a sum like every analyzer, so
  that an escaping exception would be visible as \<open>Inl\<close>.
\<close>

definition transformer_analyze ::
  "(string \<Rightarrow> error + (string \<times> real) list) option \<Rightarrow> analyzer" where
  "transformer_analyze pipeline txt =
     (case pipeline of
        None \<Rightarrow> Inr (fallback_analysis txt)
      | Some model \<Rightarrow>
          (case model (truncate_text txt) of
             Inl e \<Rightarrow> Inr (fallback_analysis (truncate_text txt))
           | Inr results \<Rightarrow>
               (let sentiment_scores = parse_results results;
                    primary_sentiment = max_key sentiment_scores in
                Inr \<lparr>sentiment = primary_sentiment,
                     confidence = get sentiment_scores primary_sentiment,
                     scores = sentiment_scores\<rparr>)))"

section \<open>Substitution of a pattern by the empty string\<close>

text \<open>
  \<^verbatim>\<open>pattern.sub('', text)\<close> scans the text from the left. At each position it asks
  whether the pattern matches there; a match is dropped and the scan goes on behind it,
  otherwise the character is kept. \<open>m prev s\<close> is the length of the match of the
  pattern at the start of \<open>s\<close>, where \<open>prev\<close> is the character before \<open>s\<close> in
  the text (a word boundary looks at it), and 0 when there is none; none of the patterns
  below matches the empty string. \<open>skip\<close> counts the characters of the current match
  that are still to be dropped.
\<close>

fun sub_empty :: "(char option \<Rightarrow> string \<Rightarrow> nat) \<Rightarrow> char option \<Rightarrow> nat \<Rightarrow> string \<Rightarrow> string" where
  "sub_empty m prev skip [] = []"
| "sub_empty m prev (Suc k) (c # cs) = sub_empty m (Some c) k cs"
| "sub_empty m prev 0 (c # cs) =
     (case m prev (c # cs) of
        0 \<Rightarrow> c # sub_empty m (Some c) 0 cs
      | Suc k \<Rightarrow> sub_empty m (Some c) k cs)"

definition char_at :: "string \<Rightarrow> nat \<Rightarrow> char option" where
  "char_at s i = (if i < length s then Some (s ! i) else None)"

definition is_alpha :: "char \<Rightarrow> bool" where
  \<comment> \<open>the class \<^verbatim>\<open>[a-zA-Z]\<close>\<close>
  "is_alpha c = (let n = code c in (97 \<le> n \<and> n \<le> 122) \<or> (65 \<le> n \<and> n \<le> 90))"

definition is_digit :: "char \<Rightarrow> bool" where
  \<comment> \<open>the class \<^verbatim>\<open>[0-9]\<close>\<close>
  "is_digit c = (let n = code c in 48 \<le> n \<and> n \<le> 57)"

definition is_word :: "char \<Rightarrow> bool" where
  \<comment> \<open>the class \<^verbatim>\<open>\w\<close> of \<^verbatim>\<open>re\<close> on code points below 256: the alphanumeric
      characters of Unicode and the underscore\<close>
  "is_word c = (let n = code c in
     (48 \<le> n \<and> n \<le> 57) \<or> (65 \<le> n \<and> n \<le> 90) \<or> n = 95 \<or> (97 \<le> n \<and> n \<le> 122) \<or>
     n = 170 \<or> n = 178 \<or> n = 179 \<or> n = 181 \<or> n = 185 \<or> n = 186 \<or>
     (188 \<le> n \<and> n \<le> 190) \<or> (192 \<le> n \<and> n \<le> 214) \<or> (216 \<le> n \<and> n \<le> 246) \<or>
     (248 \<le> n \<and> n \<le> 255))"

fun word_side :: "char option \<Rightarrow> bool" where
  "word_side None = False"
| "word_side (Some c) = is_word c"

definition word_boundary :: "char option \<Rightarrow> char option \<Rightarrow> bool" where
  \<comment> \<open>\<^verbatim>\<open>\b\<close> between two neighbours; \<open>None\<close> is the start or the end of the text\<close>
  "word_boundary a b = (word_side a \<noteq> word_side b)"

section \<open>TextPreprocessor\<close>

subsection \<open>\<^verbatim>\<open>_remove_html_tags\<close>: the pattern \<^verbatim>\<open><[^>]+>\<close>\<close>

definition match_html :: "char option \<Rightarrow> string \<Rightarrow> nat" where
  "match_html prev s =
     (case s of
        [] \<Rightarrow> 0
      | c # cs \<Rightarrow>
          (let body = takeWhile (\<lambda>x. x \<noteq> CHR ''>'') cs in
           if c = CHR ''<'' \<and> body \<noteq> [] \<and> length body < length cs
           then length body + 2 else 0))"

definition remove_html_tags :: "string \<Rightarrow> string" where
  "remove_html_tags txt = sub_empty match_html None 0 txt"

subsection \<open>\<^verbatim>\<open>_remove_urls\<close>\<close>

text \<open>
  The pattern is
  \<^verbatim>\<open>http[s]?://(?:[a-zA-Z]|[0-9]|[$-_@.&+]|[!*\\(\\),]|(?:%[0-9a-fA-F][0-9a-fA-F]))+\<close>.
  The range \<^verbatim>\<open>$-_\<close> of the third alternative is the code points 36 to 95. It holds
  the percent sign, so the fifth alternative is never tried, and each round of the
  group takes one character of the first four classes. Nothing follows the group, so
  the greedy repetition takes the longest run of such characters.
\<close>

definition url_char :: "char \<Rightarrow> bool" where
  "url_char c =
     (is_alpha c \<or> is_digit c
      \<or> ((36 \<le> code c \<and> code c \<le> 95) \<or> c \<in> set ''@.&+'')
      \<or> c \<in> set [CHR ''!'', CHR ''*'', CHR 0x5C, CHR ''('', CHR 0x5C, CHR '')'', CHR '',''])"

definition match_url :: "char option \<Rightarrow> string \<Rightarrow> nat" where
  "match_url prev s =
     (if startswith s ''http'' then
        (let r = drop 4 s;
             n_s = (if startswith r ''s'' then 1 else 0);
             r2 = drop n_s r
         in if startswith r2 ''://'' then
              (let n = length (takeWhile url_char (drop 3 r2)) in
               if n \<ge> 1 then 4 + n_s + 3 + n else 0)
            else 0)
      else 0)"

definition remove_urls :: "string \<Rightarrow> string" where
  "remove_urls txt = sub_empty match_url None 0 txt"

subsection \<open>\<^verbatim>\<open>_remove_emails\<close>\<close>

text \<open>
  The pattern is \<^verbatim>\<open>\b[A-Za-z0-9._%+-]+@[A-Za-z0-9.-]+\.[A-Z|a-z]{2,}\b\<close>. The local
  part is the longest run of its class (the at sign is not in the class, so no shorter
  run can be followed by it). The domain and the last label are greedy and give
  characters back: the domain is tried from its longest run down to one character,
  and for each domain the last label from its longest run down to two characters,
  until a word boundary ends the match.
\<close>

definition local_char :: "char \<Rightarrow> bool" where
  \<comment> \<open>\<^verbatim>\<open>[A-Za-z0-9._%+-]\<close>\<close>
  "local_char c = (is_alpha c \<or> is_digit c \<or> c \<in> set ''._%+-'')"

definition domain_char :: "char \<Rightarrow> bool" where
  \<comment> \<open>\<^verbatim>\<open>[A-Za-z0-9.-]\<close>\<close>
  "domain_char c = (is_alpha c \<or> is_digit c \<or> c \<in> set ''.-'')"

definition tld_char :: "char \<Rightarrow> bool" where
  \<comment> \<open>\<^verbatim>\<open>[A-Z|a-z]\<close>: the bar is a member of the class\<close>
  "tld_char c = (is_alpha c \<or> c = CHR ''|'')"

fun tld_len :: "nat \<Rightarrow> string \<Rightarrow> nat" where
  \<comment> \<open>the last label at the start of \<open>t\<close>: lengths \<open>l, l - 1, ..., 2\<close> in turn\<close>
  "tld_len 0 t = 0"
| "tld_len (Suc j) t =
     (if Suc j \<ge> 2 \<and> word_boundary (char_at t j) (char_at t (Suc j)) then Suc j
      else tld_len j t)"

fun domain_len :: "nat \<Rightarrow> string \<Rightarrow> nat" where
  \<comment> \<open>domain, dot and last label at the start of \<open>rest\<close>: domains of length
      \<open>k, k - 1, ..., 1\<close> in turn\<close>
  "domain_len 0 rest = 0"
| "domain_len (Suc j) rest =
     (if char_at rest (Suc j) = Some CHR ''.'' then
        (let t = drop (Suc j + 1) rest in
         case tld_len (length (takeWhile tld_char t)) t of
           0 \<Rightarrow> domain_len j rest
         | Suc l \<Rightarrow> Suc j + 1 + Suc l)
      else domain_len j rest)"

definition match_email :: "char option \<Rightarrow> string \<Rightarrow> nat" where
  "match_email prev s =
     (if word_boundary prev (char_at s 0) then
        (let n1 = length (takeWhile local_char s) in
         if n1 \<ge> 1 \<and> char_at s n1 = Some CHR ''@'' then
           (let rest = drop (n1 + 1) s in
            case domain_len (length (takeWhile domain_char rest)) rest of
              0 \<Rightarrow> 0
            | Suc d \<Rightarrow> n1 + 1 + Suc d)
         else 0)
      else 0)"

definition remove_emails :: "string \<Rightarrow> string" where
  "remove_emails txt = sub_empty match_email None 0 txt"

subsection \<open>\<^verbatim>\<open>_remove_special_characters\<close>\<close>

definition special_kept :: "char \<Rightarrow> bool" where
  \<comment> \<open>the characters that \<^verbatim>\<open>[^a-zA-Z0-9\s.,!?;:\-\'"()]\<close> does not match\<close>
  "special_kept c =
     (is_alpha c \<or> is_digit c \<or> isspace c
      \<or> c \<in> set [CHR ''.'', CHR '','', CHR ''!'', CHR ''?'', CHR '';'', CHR '':'', CHR ''-'',
                  CHR 0x27, CHR 0x22, CHR ''('', CHR '')''])"

definition remove_special_characters :: "string \<Rightarrow> string" where
  "remove_special_characters txt = filter special_kept txt"

subsection \<open>Whitespace\<close>

fun collapse :: "bool \<Rightarrow> string \<Rightarrow> string" where
  \<comment> \<open>\<^verbatim>\<open>re.sub(r'\s+', ' ', text)\<close>: every run of whitespace becomes one space; the
      flag says that the character before was whitespace\<close>
  "collapse in_run [] = []"
| "collapse in_run (c # cs) =
     (if isspace c then (if in_run then collapse True cs else CHR '' '' # collapse True cs)
      else c # collapse False cs)"

definition strip :: "string \<Rightarrow> string" where
  "strip s = rev (dropWhile isspace (rev (dropWhile isspace s)))"

subsection \<open>The NLTK stage\<close>

text \<open>
  The resources of NLTK, when the import succeeded: the tokenizer, the stop words, the
  lemmatizer and the stemmer, taken as total functions.
\<close>

record nltk =
  word_tokenize :: "string \<Rightarrow> string list"
  stop_words :: "string list"
  lemmatize_token :: "string \<Rightarrow> string"
  stem_token :: "string \<Rightarrow> string"

text \<open>
  The configuration of a \<^verbatim>\<open>TextPreprocessor\<close>. The attributes \<^verbatim>\<open>remove_urls\<close> and
  \<^verbatim>\<open>remove_emails\<close> are the fields \<open>remove_urls_flag\<close> and \<open>remove_emails_flag\<close>,
  since the methods \<^verbatim>\<open>_remove_urls\<close> and \<^verbatim>\<open>_remove_emails\<close> have these names here.
\<close>

record TextPreprocessor =
  remove_urls_flag :: bool
  remove_emails_flag :: bool
  remove_html :: bool
  remove_special_chars :: bool
  lowercase :: bool
  remove_stopwords :: bool
  lemmatize :: bool
  stem :: bool

definition join_space :: "string list \<Rightarrow> string" where
  \<comment> \<open>\<^verbatim>\<open>' '.join(tokens)\<close>\<close>
  "join_space tokens = concat (case tokens of [] \<Rightarrow> [] | t # ts \<Rightarrow> t # map (\<lambda>x. CHR '' '' # x) ts)"

definition apply_nltk_preprocessing :: "nltk \<Rightarrow> TextPreprocessor \<Rightarrow> string \<Rightarrow> string" where
  \<comment> \<open>The attributes \<^verbatim>\<open>stop_words\<close>, \<^verbatim>\<open>lemmatizer\<close> and \<^verbatim>\<open>stemmer\<close> exist
      when their flag was set at construction.\<close>
  "apply_nltk_preprocessing lib self txt =
     (let tokens = word_tokenize lib txt;
          tokens1 = (if remove_stopwords self
                     then filter (\<lambda>token. lower token \<notin> set (stop_words lib)) tokens
                     else tokens);
          tokens2 = (if lemmatize self then map (lemmatize_token lib) tokens1 else tokens1);
          tokens3 = (if stem self then map (stem_token lib) tokens2 else tokens2)
      in join_space tokens3)"

definition TextPreprocessor_init ::
  "nltk option \<Rightarrow> bool \<Rightarrow> bool \<Rightarrow> bool \<Rightarrow> bool \<Rightarrow> bool \<Rightarrow> bool \<Rightarrow> bool \<Rightarrow> bool \<Rightarrow> TextPreprocessor" where
  \<comment> \<open>\<^verbatim>\<open>__init__\<close>; the first argument is \<open>None\<close> when \<^verbatim>\<open>NLTK_AVAILABLE\<close> is false,
      and then the three flags of the NLTK stage are switched off.\<close>
  "TextPreprocessor_init lib urls emails html special lowercase_arg stopwords lemma_arg stem_arg =
     \<lparr>remove_urls_flag = urls, remove_emails_flag = emails, remove_html = html,
      remove_special_chars = special, lowercase = lowercase_arg,
      remove_stopwords = (lib \<noteq> None \<and> stopwords),
      lemmatize = (lib \<noteq> None \<and> lemma_arg),
      stem = (lib \<noteq> None \<and> stem_arg)\<rparr>"

definition default_preprocessor :: "nltk option \<Rightarrow> TextPreprocessor" where
  \<comment> \<open>\<^verbatim>\<open>TextPreprocessor()\<close>\<close>
  "default_preprocessor lib = TextPreprocessor_init lib True True True False True False False False"

definition preprocess :: "nltk option \<Rightarrow> TextPreprocessor \<Rightarrow> string \<Rightarrow> string" where
  "preprocess lib self txt =
     (if txt = [] then []
      else
        (let t1 = (if remove_html self then remove_html_tags txt else txt);
             t2 = (if remove_urls_flag self then remove_urls t1 else t1);
             t3 = (if remove_emails_flag self then remove_emails t2 else t2);
             t4 = (if remove_special_chars self then remove_special_characters t3 else t3);
             t5 = (if lowercase self then lower t4 else t4);
             t6 = (case lib of
                     None \<Rightarrow> t5
                   | Some l \<Rightarrow>
                       if remove_stopwords self \<or> lemmatize self \<or> stem self
                       then apply_nltk_preprocessing l self t5 else t5)
         in strip (collapse False t6)))"

section \<open>The ensemble combiners\<close>

text \<open>
  The libraries behind the three analyzers: VADER's \<^verbatim>\<open>polarity_scores\<close>, TextBlob's
  \<^verbatim>\<open>sentiment\<close> and the field \<^verbatim>\<open>pipeline\<close> of the transformer analyzer.
\<close>

record libs =
  polarity_scores :: "string \<Rightarrow> error + vader_scores"
  blob_sentiment :: "string \<Rightarrow> error + real \<times> real"
  pipeline :: "(string \<Rightarrow> error + (string \<times> real) list) option"

text \<open>
  Both combiners keep their analyzers in the dictionary \<^verbatim>\<open>self.analyzers\<close>, from name
  to analyzer, iterated in insertion order: an association list.
\<close>

record engine =
  analyzers :: "(string \<times> analyzer) list"

record EnsembleAnalyzer = engine +
  weights :: "(string \<times> real) list"

text \<open>
  The result dictionary of both combiners. \<^verbatim>\<open>EnsembleAnalyzer.analyze\<close> adds the constant
  entry \<^verbatim>\<open>'method': 'ensemble'\<close>, which is left out.
\<close>

record ensemble_result = analysis +
  individual_results :: "(string \<times> analysis) list"

definition add_weighted :: "score_dict \<Rightarrow> score_dict \<Rightarrow> real \<Rightarrow> score_dict" where
  \<comment> \<open>\<^verbatim>\<open>for sentiment, score in result['scores'].items(): combined[sentiment] += score * weight\<close>\<close>
  "add_weighted combined s weight =
     \<lparr>positive = positive combined + positive s * weight,
      negative = negative combined + negative s * weight,
      neutral = neutral combined + neutral s * weight\<rparr>"

fun run_analyzers ::
  "(string \<Rightarrow> real) \<Rightarrow> string \<Rightarrow> (string \<times> analyzer) list \<Rightarrow>
   (string \<times> analysis) list \<times> score_dict \<Rightarrow> (string \<times> analysis) list \<times> score_dict" where
  \<comment> \<open>The loop over \<^verbatim>\<open>self.analyzers.items()\<close> with its \<^verbatim>\<open>try/except Exception: continue\<close>;
      the state is \<^verbatim>\<open>individual_results\<close> and \<^verbatim>\<open>combined_scores\<close>.\<close>
  "run_analyzers weight_of txt [] state = state"
| "run_analyzers weight_of txt ((name, analyzer) # rest) (results, combined) =
     (case analyzer txt of
        Inl e \<Rightarrow> run_analyzers weight_of txt rest (results, combined)
      | Inr result \<Rightarrow>
          run_analyzers weight_of txt rest
            (results @ [(name, result)], add_weighted combined (scores result) (weight_of name)))"

definition normalize_scores :: "score_dict \<Rightarrow> score_dict" where
  \<comment> \<open>\<^verbatim>\<open>total = sum(d.values()); if total > 0: d = {k: v / total for k, v in d.items()}\<close>\<close>
  "normalize_scores d =
     (let total = sum_values d in
      if total > 0 then
        \<lparr>positive = positive d / total, negative = negative d / total, neutral = neutral d / total\<rparr>
      else d)"

definition combine :: "(string \<times> analysis) list \<times> score_dict \<Rightarrow> ensemble_result" where
  "combine state =
     (let combined_scores = normalize_scores (snd state);
          final_sentiment = max_key combined_scores
      in \<lparr>sentiment = final_sentiment, confidence = get combined_scores final_sentiment,
          scores = combined_scores, individual_results = fst state\<rparr>)"

definition zero_scores :: score_dict where
  "zero_scores = \<lparr>positive = 0, negative = 0, neutral = 0\<rparr>"

subsection \<open>\<^verbatim>\<open>EnsembleAnalyzer\<close>\<close>

definition EnsembleAnalyzer_init ::
  "libs \<Rightarrow> bool \<Rightarrow> bool \<Rightarrow> bool \<Rightarrow> real \<Rightarrow> real \<Rightarrow> real \<Rightarrow> EnsembleAnalyzer" where
  "EnsembleAnalyzer_init L use_vader use_textblob use_transformer
       vader_weight textblob_weight transformer_weight =
     (let as = (if use_vader then [(''vader'', vader_analyze (polarity_scores L))] else [])
             @ (if use_textblob then [(''textblob'', textblob_analyze (blob_sentiment L))] else [])
             @ (if use_transformer then [(''transformer'', transformer_analyze (pipeline L))] else []);
          ws = (if use_vader then [(''vader'', vader_weight)] else [])
             @ (if use_textblob then [(''textblob'', textblob_weight)] else [])
             @ (if use_transformer then [(''transformer'', transformer_weight)] else []);
          total_weight = sum_list (map snd ws)
      in \<lparr>analyzers = as,
          weights = (if total_weight > 0 then map (\<lambda>(k, v). (k, v / total_weight)) ws else ws)\<rparr>)"

definition weight_get :: "(string \<times> real) list \<Rightarrow> string \<Rightarrow> real" where
  \<comment> \<open>\<^verbatim>\<open>self.weights.get(name, 0.0)\<close>\<close>
  "weight_get ws name = (case map_of ws name of Some w \<Rightarrow> w | None \<Rightarrow> 0)"

definition EnsembleAnalyzer_analyze :: "EnsembleAnalyzer \<Rightarrow> string \<Rightarrow> error + ensemble_result" where
  "EnsembleAnalyzer_analyze self txt =
     (if analyzers self = [] then Inl (ValueError ''No analyzers configured'')
      else Inr (combine (run_analyzers (weight_get (weights self)) txt (analyzers self)
                           ([], zero_scores))))"

subsection \<open>\<^verbatim>\<open>SentimentAnalyzer\<close>\<close>

record SentimentAnalyzer = engine +
  self_method :: string
  self_preprocess :: bool
  preprocessor :: "TextPreprocessor option"

text \<open>
  The dataclass \<^verbatim>\<open>SentimentResult\<close>: the fields \<^verbatim>\<open>sentiment\<close>, \<^verbatim>\<open>confidence\<close> and
  \<^verbatim>\<open>scores\<close> of an analysis, and \<^verbatim>\<open>text\<close>, \<^verbatim>\<open>method\<close> and \<^verbatim>\<open>processing_time\<close>.
\<close>

record SentimentResult = analysis +
  text' :: string
  method' :: string
  processing_time :: real

definition SentimentAnalyzer_init :: "libs \<Rightarrow> nltk option \<Rightarrow> string \<Rightarrow> bool \<Rightarrow> SentimentAnalyzer" where
  "SentimentAnalyzer_init L lib method_arg preprocess_arg =
     \<lparr>analyzers = [(''vader'', vader_analyze (polarity_scores L)),
                   (''textblob'', textblob_analyze (blob_sentiment L)),
                   (''transformer'', transformer_analyze (pipeline L))],
      self_method = method_arg, self_preprocess = preprocess_arg,
      preprocessor = (if preprocess_arg then Some (default_preprocessor lib) else None)\<rparr>"

definition get_analyzer_weight :: "string \<Rightarrow> real" where
  "get_analyzer_weight analyzer_name =
     (case map_of [(''vader'', 4 / 10), (''textblob'', 3 / 10), (''transformer'', 3 / 10)]
             analyzer_name of
        Some w \<Rightarrow> w
      | None \<Rightarrow> 33 / 100)"

definition ensemble_analyze :: "SentimentAnalyzer \<Rightarrow> string \<Rightarrow> ensemble_result" where
  \<comment> \<open>\<^verbatim>\<open>SentimentAnalyzer._ensemble_analyze\<close>\<close>
  "ensemble_analyze self txt =
     combine (run_analyzers get_analyzer_weight txt (analyzers self) ([], zero_scores))"

definition analyze :: "nltk option \<Rightarrow> real \<Rightarrow> SentimentAnalyzer \<Rightarrow> string \<Rightarrow> error + SentimentResult" where
  \<comment> \<open>\<open>elapsed\<close> is the difference of the two readings of \<^verbatim>\<open>time.time()\<close>.\<close>
  "analyze lib elapsed self txt =
     (let processed_text =
            (case preprocessor self of
               Some p \<Rightarrow> if self_preprocess self then preprocess lib p txt else txt
             | None \<Rightarrow> txt)
      in
      if self_method self = ''ensemble'' then
        (let result = ensemble_analyze self processed_text in
         Inr \<lparr>sentiment = sentiment result, confidence = confidence result,
              scores = scores result, text' = txt, method' = self_method self,
              processing_time = elapsed\<rparr>)
      else
        (case map_of (analyzers self) (self_method self) of
           None \<Rightarrow> Inl (ValueError (''Unknown analysis method: '' @ self_method self))
         | Some analyzer \<Rightarrow>
             (case analyzer processed_text of
                Inl e \<Rightarrow> Inl e
              | Inr result \<Rightarrow>
                  Inr \<lparr>sentiment = sentiment result, confidence = confidence result,
                       scores = scores result, text' = txt, method' = self_method self,
                       processing_time = elapsed\<rparr>)))"

definition error_result :: "SentimentAnalyzer \<Rightarrow> string \<Rightarrow> SentimentResult" where
  \<comment> \<open>the result appended by the \<^verbatim>\<open>except\<close> branch of \<^verbatim>\<open>analyze_batch\<close>\<close>
  "error_result self txt =
     \<lparr>sentiment = NEUTRAL, confidence = 0,
      scores = \<lparr>positive = 0, negative = 0, neutral = 1\<rparr>,
      text' = txt, method' = self_method self, processing_time = 0\<rparr>"

fun analyze_batch_from ::
  "nltk option \<Rightarrow> (nat \<Rightarrow> real) \<Rightarrow> SentimentAnalyzer \<Rightarrow> nat \<Rightarrow> string list \<Rightarrow> SentimentResult list" where
  \<comment> \<open>the loop \<^verbatim>\<open>for i, text in enumerate(texts)\<close> from index \<open>i\<close>; \<open>elapsed_of i\<close> is the
      time measured for item \<open>i\<close>\<close>
  "analyze_batch_from lib elapsed_of self i [] = []"
| "analyze_batch_from lib elapsed_of self i (txt # rest) =
     (case analyze lib (elapsed_of i) self txt of
        Inr result \<Rightarrow> result
      | Inl e \<Rightarrow> error_result self txt)
     # analyze_batch_from lib elapsed_of self (Suc i) rest"

definition analyze_batch ::
  "nltk option \<Rightarrow> (nat \<Rightarrow> real) \<Rightarrow> SentimentAnalyzer \<Rightarrow> string list \<Rightarrow> SentimentResult list" where
  "analyze_batch lib elapsed_of self texts = analyze_batch_from lib elapsed_of self 0 texts"

record statistics =
  total_analyzed :: nat
  sentiment_distribution :: score_dict
  average_confidence :: real
  total_processing_time :: real
  average_processing_time :: real

definition count_label :: "SentimentLabel \<Rightarrow> SentimentResult list \<Rightarrow> nat" where
  \<comment> \<open>\<^verbatim>\<open>sentiments.count(label)\<close>\<close>
  "count_label l results = length (filter (\<lambda>r. sentiment r = l) results)"

definition get_statistics :: "SentimentResult list \<Rightarrow> statistics option" where
  \<comment> \<open>\<open>None\<close> is the empty dictionary returned for an empty list.\<close>
  "get_statistics results =
     (if results = [] then None
      else Some
        \<lparr>total_analyzed = length results,
         sentiment_distribution =
           \<lparr>positive = real (count_label POSITIVE results) / real (length results),
            negative = real (count_label NEGATIVE results) / real (length results),
            neutral = real (count_label NEUTRAL results) / real (length results)\<rparr>,
         average_confidence = sum_list (map confidence results) / real (length results),
         total_processing_time = sum_list (map processing_time results),
         average_processing_time =
           sum_list (map processing_time results) / real (length results)\<rparr>)"

section \<open>Library stubs for the concrete scenarios\<close>

definition failing_libs :: libs where
  \<comment> \<open>both lexicon libraries raise on every text; the model is not loaded\<close>
  "failing_libs =
     \<lparr>polarity_scores = (\<lambda>t. Inl (LibraryError ''vader'')),
      blob_sentiment = (\<lambda>t. Inl (LibraryError ''textblob'')),
      pipeline = None\<rparr>"

definition calm_libs :: libs where
  \<comment> \<open>both lexicon libraries find no polarity in any text; the model is not loaded\<close>
  "calm_libs =
     \<lparr>polarity_scores = (\<lambda>t. Inr \<lparr>neg = 0, neu = 1, pos = 0, compound = 0\<rparr>),
      blob_sentiment = (\<lambda>t. Inr (0, 0)),
      pipeline = None\<rparr>"

definition failing_ensemble :: EnsembleAnalyzer where
  \<comment> \<open>\<^verbatim>\<open>EnsembleAnalyzer(use_transformer=False)\<close> over the failing libraries\<close>
  "failing_ensemble = EnsembleAnalyzer_init failing_libs True True False (4 / 10) (3 / 10) (3 / 10)"

definition failing_analyzer :: SentimentAnalyzer where
  \<comment> \<open>a \<^verbatim>\<open>SentimentAnalyzer\<close> whose dictionary of analyzers was replaced by two
      analyzers that raise\<close>
  "failing_analyzer =
     (SentimentAnalyzer_init failing_libs None ''ensemble'' True)
       \<lparr>analyzers := [(''vader'', vader_analyze (polarity_scores failing_libs)),
                      (''textblob'', textblob_analyze (blob_sentiment failing_libs))]\<rparr>"

definition tied_libs :: libs where
  \<comment> \<open>VADER finds as much positive as negative, TextBlob raises, the model raises\<close>
  "tied_libs =
     \<lparr>polarity_scores = (\<lambda>t. Inr \<lparr>neg = 1 / 2, neu = 0, pos = 1 / 2, compound = 0\<rparr>),
      blob_sentiment = (\<lambda>t. Inl (LibraryError ''textblob'')),
      pipeline = Some (\<lambda>t. Inl (LibraryError ''model''))\<rparr>"

definition tied_ensemble :: EnsembleAnalyzer where
  \<comment> \<open>\<^verbatim>\<open>EnsembleAnalyzer()\<close>\<close>
  "tied_ensemble = EnsembleAnalyzer_init tied_libs True True True (4 / 10) (3 / 10) (3 / 10)"

definition tied_analyzer :: SentimentAnalyzer where
  \<comment> \<open>\<^verbatim>\<open>SentimentAnalyzer()\<close>\<close>
  "tied_analyzer = SentimentAnalyzer_init tied_libs None ''ensemble'' True"

definition tied_result :: ensemble_result where
  "tied_result =
     \<lparr>sentiment = POSITIVE, confidence = 29 / 70,
      scores = \<lparr>positive = 29 / 70, negative = 29 / 70, neutral = 6 / 35\<rparr>,
      individual_results =
        [(''vader'', \<lparr>sentiment = NEUTRAL, confidence = 0,
                      scores = \<lparr>positive = 1 / 2, negative = 1 / 2, neutral = 0\<rparr>\<rparr>),
         (''transformer'', \<lparr>sentiment = NEUTRAL, confidence = 6 / 10,
                      scores = \<lparr>positive = 3 / 10, negative = 3 / 10, neutral = 4 / 10\<rparr>\<rparr>)]\<rparr>"

definition zero_weight_ensemble :: EnsembleAnalyzer where
  \<comment> \<open>\<^verbatim>\<open>EnsembleAnalyzer(use_vader=False, use_transformer=False, textblob_weight=0.0)\<close>\<close>
  "zero_weight_ensemble = EnsembleAnalyzer_init calm_libs False True False 0 0 0"

definition long_text :: string where
  "long_text = replicate 600 CHR ''a''"

definition broken_model :: "string \<Rightarrow> error + (string \<times> real) list" where
  \<comment> \<open>a loaded model whose inference raises\<close>
  "broken_model t = Inl (LibraryError ''inference'')"

definition model_output :: "(string \<times> real) list" where
  \<comment> \<open>an output of the default two-label model\<close>
  "model_output = [(''NEGATIVE'', 1 / 10), (''POSITIVE'', 9 / 10)]"

definition quirk_libs :: libs where
  \<comment> \<open>a VADER that raises on the empty string\<close>
  "quirk_libs =
     \<lparr>polarity_scores = (\<lambda>t.
        if t = [] then Inl (LibraryError ''empty text'')
        else if contains ''love'' t then Inr \<lparr>neg = 0, neu = 3 / 10, pos = 7 / 10, compound = 7 / 10\<rparr>
        else if contains ''worst'' t then Inr \<lparr>neg = 8 / 10, neu = 2 / 10, pos = 0, compound = - (8 / 10)\<rparr>
        else Inr \<lparr>neg = 0, neu = 1, pos = 0, compound = 0\<rparr>),
      blob_sentiment = (\<lambda>t. Inr (0, 0)),
      pipeline = None\<rparr>"

definition quirk_analyzer :: SentimentAnalyzer where
  "quirk_analyzer = SentimentAnalyzer_init quirk_libs None ''vader'' True"

definition batch_texts :: "string list" where
  "batch_texts = [''I love this!'', '''', ''Terrible, worst ever.'']"

definition batch_results :: "SentimentResult list" where
  "batch_results =
     [\<lparr>sentiment = POSITIVE, confidence = 7 / 10,
       scores = \<lparr>positive = 7 / 10, negative = 0, neutral = 3 / 10\<rparr>,
       text' = ''I love this!'', method' = ''vader'', processing_time = 1 / 100\<rparr>,
      \<lparr>sentiment = NEUTRAL, confidence = 0,
       scores = \<lparr>positive = 0, negative = 0, neutral = 1\<rparr>,
       text' = '''', method' = ''vader'', processing_time = 0\<rparr>,
      \<lparr>sentiment = NEGATIVE, confidence = 8 / 10,
       scores = \<lparr>positive = 0, negative = 8 / 10, neutral = 2 / 10\<rparr>,
       text' = ''Terrible, worst ever.'', method' = ''vader'', processing_time = 1 / 100\<rparr>]"

definition calm_textblob_analyzer :: SentimentAnalyzer where
  \<comment> \<open>\<^verbatim>\<open>SentimentAnalyzer(method='textblob')\<close>\<close>
  "calm_textblob_analyzer = SentimentAnalyzer_init calm_libs None ''textblob'' True"

definition strict_preprocessor :: TextPreprocessor where
  \<comment> \<open>every stage but the NLTK stage switched on\<close>
  "strict_preprocessor = TextPreprocessor_init None True True True True True False False False"

definition cased_preprocessor :: TextPreprocessor where
  \<comment> \<open>markup, URLs and e-mail addresses stripped, case and punctuation kept\<close>
  "cased_preprocessor = TextPreprocessor_init None True True True False False False False False"

section \<open>The deadband rule of the specification\<close>

definition spec_deadband_label :: "real \<Rightarrow> SentimentLabel" where
  \<comment> \<open>The rule as the specification words it: positive from +0.05, negative up to
      -0.05, neutral strictly between. The analyzers above are compared with it.\<close>
  "spec_deadband_label x =
     (if x \<ge> 5 / 100 then POSITIVE else if x \<le> - (5 / 100) then NEGATIVE else NEUTRAL)"

section \<open>Normal forms of the preprocessor\<close>

text \<open>
  Two predicates for the proofs about \<^verbatim>\<open>preprocess\<close>. A text is whitespace-normal when
  its only whitespace characters are single spaces (the flag says that the character
  before was whitespace). A text is free of markup when the pattern of
  \<^verbatim>\<open>_remove_html_tags\<close> matches at none of its positions.
\<close>

fun ws_normal :: "bool \<Rightarrow> string \<Rightarrow> bool" where
  "ws_normal b [] = True"
| "ws_normal b (c # cs) =
     (if isspace c then c = CHR '' '' \<and> \<not> b \<and> ws_normal True cs else ws_normal False cs)"

fun tagfree :: "string \<Rightarrow> bool" where
  "tagfree [] = True"
| "tagfree (c # cs) = (match_html None (c # cs) = 0 \<and> tagfree cs)"

section \<open>Properties of the combiners\<close>

lemma max_key_eq:
  "max_key d =
     (if negative d \<le> positive d \<and> neutral d \<le> positive d then POSITIVE
      else if neutral d \<le> negative d then NEGATIVE else NEUTRAL)"
  by (auto simp: max_key_def keys_def)

lemma run_analyzers_all_fail:
  "\<forall>p \<in> set as. isl (snd p txt) \<Longrightarrow> run_analyzers w txt as st = st"
proof (induction as arbitrary: st)
  case Nil
  then show ?case by simp
next
  case (Cons a as)
  obtain name f where a: "a = (name, f)" by (cases a)
  obtain rs c where st: "st = (rs, c)" by (cases st)
  from Cons.prems a have "isl (f txt)" by simp
  then obtain e where "f txt = Inl e" by (cases "f txt") auto
  with Cons a st show ?case by simp
qed

lemma combine_zero:
  "combine (rs, zero_scores) =
     \<lparr>sentiment = POSITIVE, confidence = 0, scores = zero_scores, individual_results = rs\<rparr>"
  by (simp add: combine_def normalize_scores_def sum_values_def zero_scores_def max_key_eq)

lemma sum_normalize: "0 < sum_values d \<Longrightarrow> sum_values (normalize_scores d) = 1"
  by (simp add: normalize_scores_def sum_values_def Let_def add_divide_distrib[symmetric])

lemma max_key_third: "sum_values d = 1 \<Longrightarrow> 1 / 3 \<le> get d (max_key d)"
  by (auto simp: max_key_eq sum_values_def)

lemma find_max_key:
  "find (\<lambda>k. list_all (\<lambda>j. get d j \<le> get d k) keys) keys = Some (max_key d)"
  by (auto simp: keys_def max_key_eq)

subsection \<open>C1: every adapter raises\<close>

text \<open>
  The claim C1 says that the combiner fails with a distinguishable error when every
  configured adapter raises. It does not: with VADER and TextBlob configured and both
  raising, \<^verbatim>\<open>EnsembleAnalyzer.analyze\<close> returns a result with label positive and
  confidence 0.
\<close>

theorem all_adapters_fail_counterexample:
  "vader_analyze (polarity_scores failing_libs) ''I love this'' = Inl (LibraryError ''vader'')
   \<and> textblob_analyze (blob_sentiment failing_libs) ''I love this''
       = Inl (LibraryError ''textblob'')
   \<and> map fst (analyzers failing_ensemble) = [''vader'', ''textblob'']
   \<and> EnsembleAnalyzer_analyze failing_ensemble ''I love this''
       = Inr \<lparr>sentiment = POSITIVE, confidence = 0,
              scores = \<lparr>positive = 0, negative = 0, neutral = 0\<rparr>, individual_results = []\<rparr>"
  by (simp add: failing_ensemble_def EnsembleAnalyzer_init_def EnsembleAnalyzer_analyze_def
      failing_libs_def vader_analyze_def textblob_analyze_def combine_zero
      zero_scores_def[symmetric])

text \<open>
  C1, as the code has it: when every configured adapter raises on the text, neither
  combiner fails. \<^verbatim>\<open>EnsembleAnalyzer.analyze\<close> (with at least one analyzer configured) and
  \<^verbatim>\<open>SentimentAnalyzer._ensemble_analyze\<close> return the label positive with confidence 0,
  the scores all 0 (not normalised) and no individual results. The only error of
  \<^verbatim>\<open>EnsembleAnalyzer.analyze\<close> is the \<^verbatim>\<open>ValueError\<close> for an empty set of analyzers.
\<close>

theorem all_adapters_fail_result:
  assumes "\<forall>p \<in> set (analyzers E). isl (snd p txt)"
    and "\<forall>p \<in> set (analyzers S). isl (snd p txt)"
  shows "EnsembleAnalyzer_analyze E txt =
           (if analyzers E = [] then Inl (ValueError ''No analyzers configured'')
            else Inr \<lparr>sentiment = POSITIVE, confidence = 0, scores = zero_scores,
                      individual_results = []\<rparr>)
         \<and> ensemble_analyze S txt =
             \<lparr>sentiment = POSITIVE, confidence = 0, scores = zero_scores,
              individual_results = []\<rparr>"
  using assms
  by (simp add: EnsembleAnalyzer_analyze_def ensemble_analyze_def run_analyzers_all_fail
      combine_zero)

theorem all_adapters_fail_result_witness:
  "analyzers failing_ensemble \<noteq> []
   \<and> EnsembleAnalyzer_analyze failing_ensemble ''I love this''
       = Inr \<lparr>sentiment = POSITIVE, confidence = 0, scores = zero_scores,
              individual_results = []\<rparr>
   \<and> ensemble_analyze failing_analyzer ''I love this''
       = \<lparr>sentiment = POSITIVE, confidence = 0, scores = zero_scores, individual_results = []\<rparr>"
  using all_adapters_fail_result [of failing_ensemble "''I love this''" failing_analyzer]
  by (simp add: failing_ensemble_def failing_analyzer_def EnsembleAnalyzer_init_def
      SentimentAnalyzer_init_def failing_libs_def vader_analyze_def textblob_analyze_def)

subsection \<open>A concrete run: VADER ties, TextBlob and the model raise\<close>

lemma fallback_ok:
  "fallback_analysis ''ok'' =
     \<lparr>sentiment = NEUTRAL, confidence = 6 / 10,
      scores = \<lparr>positive = 3 / 10, negative = 3 / 10, neutral = 4 / 10\<rparr>\<rparr>"
  by (simp add: fallback_analysis_def lower_def lower_char_def code_def positive_words_def
      negative_words_def split_def isspace_def)

lemma tied_run:
  "run_analyzers w ''ok'' (analyzers tied_ensemble) ([], zero_scores) =
     ([(''vader'', \<lparr>sentiment = NEUTRAL, confidence = 0,
                      scores = \<lparr>positive = 1 / 2, negative = 1 / 2, neutral = 0\<rparr>\<rparr>),
         (''transformer'', \<lparr>sentiment = NEUTRAL, confidence = 6 / 10,
                      scores = \<lparr>positive = 3 / 10, negative = 3 / 10, neutral = 4 / 10\<rparr>\<rparr>)],
      \<lparr>positive = w ''vader'' * (1 / 2) + w ''transformer'' * (3 / 10),
       negative = w ''vader'' * (1 / 2) + w ''transformer'' * (3 / 10),
       neutral = w ''transformer'' * (4 / 10)\<rparr>)"
  by (simp add: tied_ensemble_def EnsembleAnalyzer_init_def tied_libs_def vader_analyze_def
      textblob_analyze_def transformer_analyze_def truncate_text_def max_length_def fallback_ok
      vader_result_def zero_scores_def add_weighted_def)

lemma tied_analyzers: "analyzers tied_analyzer = analyzers tied_ensemble"
  by (simp add: tied_analyzer_def tied_ensemble_def SentimentAnalyzer_init_def
      EnsembleAnalyzer_init_def)

lemma tied_weights:
  "weights tied_ensemble = [(''vader'', 4 / 10), (''textblob'', 3 / 10), (''transformer'', 3 / 10)]"
  by (simp add: tied_ensemble_def EnsembleAnalyzer_init_def)

lemma tied_eval: "EnsembleAnalyzer_analyze tied_ensemble ''ok'' = Inr tied_result"
  apply (simp add: EnsembleAnalyzer_analyze_def tied_run tied_weights weight_get_def)
  apply (simp add: tied_ensemble_def EnsembleAnalyzer_init_def combine_def normalize_scores_def
      sum_values_def max_key_eq tied_result_def)
  done

lemma tied_eval': "ensemble_analyze tied_analyzer ''ok'' = tied_result"
  by (simp add: ensemble_analyze_def tied_analyzers tied_run get_analyzer_weight_def
      combine_def normalize_scores_def sum_values_def max_key_eq tied_result_def)

lemma tied_total: "0 < sum_values (snd (run_analyzers (weight_get (weights tied_ensemble)) ''ok''
                             (analyzers tied_ensemble) ([], zero_scores)))"
  by (simp add: tied_run tied_weights weight_get_def sum_values_def)

lemma tied_total': "0 < sum_values (snd (run_analyzers get_analyzer_weight ''ok''
                             (analyzers tied_analyzer) ([], zero_scores)))"
  by (simp add: tied_analyzers tied_run get_analyzer_weight_def sum_values_def)

lemma scores_combine: "scores (combine st) = normalize_scores (snd st)"
  by (simp add: combine_def Let_def)

lemma sentiment_combine: "sentiment (combine st) = max_key (scores (combine st))"
  by (simp add: combine_def Let_def)

lemma confidence_combine:
  "confidence (combine st) = get (scores (combine st)) (sentiment (combine st))"
  by (simp add: combine_def Let_def)

subsection \<open>C8: the final label\<close>

text \<open>
  C8: in both combiners the final label is the argmax of the combined scores, and exact
  ties go to the first key in the order positive, negative, neutral: the label is the
  first key, in that order, whose score no other score exceeds. The confidence is the
  score of that label.
\<close>

theorem ensemble_label_first_argmax:
  assumes "EnsembleAnalyzer_analyze E txt = Inr r"
  shows "find (\<lambda>k. list_all (\<lambda>j. get (scores r) j \<le> get (scores r) k) keys) keys
           = Some (sentiment r)
         \<and> confidence r = get (scores r) (sentiment r)
         \<and> find (\<lambda>k. list_all (\<lambda>j. get (scores (ensemble_analyze S txt)) j
                                     \<le> get (scores (ensemble_analyze S txt)) k) keys) keys
           = Some (sentiment (ensemble_analyze S txt))
         \<and> confidence (ensemble_analyze S txt)
           = get (scores (ensemble_analyze S txt)) (sentiment (ensemble_analyze S txt))"
proof -
  from assms have r: "r = combine (run_analyzers (weight_get (weights E)) txt (analyzers E)
                                    ([], zero_scores))"
    by (auto simp: EnsembleAnalyzer_analyze_def split: if_splits)
  show ?thesis
    unfolding r ensemble_analyze_def find_max_key
    using sentiment_combine confidence_combine by simp
qed

theorem ensemble_label_first_argmax_witness:
  "EnsembleAnalyzer_analyze tied_ensemble ''ok'' = Inr tied_result
   \<and> ensemble_analyze tied_analyzer ''ok'' = tied_result
   \<and> get (scores tied_result) POSITIVE = get (scores tied_result) NEGATIVE
   \<and> find (\<lambda>k. list_all (\<lambda>j. get (scores tied_result) j \<le> get (scores tied_result) k) keys) keys
        = Some POSITIVE
   \<and> sentiment tied_result = POSITIVE
   \<and> confidence tied_result = get (scores tied_result) POSITIVE"
  using ensemble_label_first_argmax [OF tied_eval, of tied_analyzer] tied_eval tied_eval'
  by (simp add: tied_result_def)

subsection \<open>C10: the confidence of the ensemble\<close>

text \<open>
  C10: when the scores accumulated over the analyzers that succeeded have a strictly
  positive total, the confidence returned by either combiner is at least 1/3.
\<close>

theorem ensemble_confidence_at_least_third:
  assumes "EnsembleAnalyzer_analyze E txt = Inr r"
    and "0 < sum_values (snd (run_analyzers (weight_get (weights E)) txt (analyzers E)
                                ([], zero_scores)))"
    and "0 < sum_values (snd (run_analyzers get_analyzer_weight txt (analyzers S)
                                ([], zero_scores)))"
  shows "1 / 3 \<le> confidence r \<and> 1 / 3 \<le> confidence (ensemble_analyze S txt)"
proof -
  have third: "1 / 3 \<le> confidence (combine st)" if "0 < sum_values (snd st)" for st
  proof -
    from that have "sum_values (scores (combine st)) = 1"
      by (simp add: scores_combine sum_normalize)
    then have "1 / 3 \<le> get (scores (combine st)) (max_key (scores (combine st)))"
      by (rule max_key_third)
    then show ?thesis
      using confidence_combine [of st] sentiment_combine [of st] by simp
  qed
  from assms(1) have "r = combine (run_analyzers (weight_get (weights E)) txt (analyzers E)
                                ([], zero_scores))"
    by (auto simp: EnsembleAnalyzer_analyze_def split: if_splits)
  with third [OF assms(2)] have "1 / 3 \<le> confidence r" by simp
  moreover from third [OF assms(3)] have "1 / 3 \<le> confidence (ensemble_analyze S txt)"
    by (simp only: ensemble_analyze_def)
  ultimately show ?thesis by simp
qed

theorem ensemble_confidence_at_least_third_witness:
  "EnsembleAnalyzer_analyze tied_ensemble ''ok'' = Inr tied_result
   \<and> 0 < sum_values (snd (run_analyzers (weight_get (weights tied_ensemble)) ''ok''
                             (analyzers tied_ensemble) ([], zero_scores)))
   \<and> 0 < sum_values (snd (run_analyzers get_analyzer_weight ''ok''
                             (analyzers tied_analyzer) ([], zero_scores)))
   \<and> 1 / 3 \<le> confidence tied_result
   \<and> 1 / 3 \<le> confidence (ensemble_analyze tied_analyzer ''ok'')"
  using ensemble_confidence_at_least_third [OF tied_eval tied_total tied_total']
    tied_eval tied_total tied_total'
  by simp

section \<open>Properties of the analyzers\<close>

lemma textblob_total_pos:
  "- 1 \<le> p \<Longrightarrow> p \<le> 1 \<Longrightarrow>
   0 < positive (textblob_raw_scores p) + negative (textblob_raw_scores p)
       + neutral (textblob_raw_scores p)"
  by (auto simp: textblob_raw_scores_def Let_def intro!: add_pos_nonneg)

lemma sum_textblob: "- 1 \<le> p \<Longrightarrow> p \<le> 1 \<Longrightarrow> sum_values (textblob_scores p) = 1"
  using textblob_total_pos [of p]
  by (simp add: textblob_scores_def sum_values_def Let_def add_divide_distrib[symmetric])

lemma sum_fallback: "sum_values (scores (fallback_analysis txt)) = 1"
  by (simp add: fallback_analysis_def sum_values_def Let_def field_simps)

lemma sum_vader: "sum_values (scores (vader_result s)) = pos s + neg s + neu s"
  by (simp add: vader_result_def sum_values_def)

lemma sum_parse_results:
  "sum_values (foldl parse_result \<lparr>positive = 0, negative = 0, neutral = 0\<rparr> results) = 1
   \<Longrightarrow> sum_values (parse_results results) = 1"
  by (auto simp: parse_results_def sum_values_def Let_def algebra_simps)

lemma parse_model_output:
  "foldl parse_result \<lparr>positive = 0, negative = 0, neutral = 0\<rparr> model_output
     = \<lparr>positive = 9 / 10, negative = 1 / 10, neutral = 0\<rparr>"
  by code_simp

lemma truncate_take: "truncate_text txt = take 512 txt"
  by (simp add: truncate_text_def max_length_def)

subsection \<open>C2: the scores sum to 1\<close>

text \<open>
  The claim C2 says that the combined distribution sums to 1 whenever at least one
  adapter succeeds. With TextBlob as the only analyzer and its weight 0, the adapter
  succeeds, the accumulated total is 0, the scores are not normalised and their sum is 0.
\<close>

theorem zero_weight_sum_counterexample:
  "textblob_analyze (blob_sentiment calm_libs) ''ok'' = Inr (textblob_result 0)
   \<and> EnsembleAnalyzer_analyze zero_weight_ensemble ''ok''
       = Inr \<lparr>sentiment = POSITIVE, confidence = 0,
              scores = \<lparr>positive = 0, negative = 0, neutral = 0\<rparr>,
              individual_results = [(''textblob'', textblob_result 0)]\<rparr>
   \<and> sum_values \<lparr>positive = 0, negative = 0, neutral = 0\<rparr> = 0"
  by (simp add: zero_weight_ensemble_def EnsembleAnalyzer_init_def EnsembleAnalyzer_analyze_def
      calm_libs_def textblob_analyze_def weight_get_def add_weighted_def zero_scores_def
      combine_def normalize_scores_def sum_values_def max_key_eq)

text \<open>
  C2, as the code has it, in exact arithmetic. The scores of the TextBlob analyzer sum to
  1 for every polarity between -1 and 1. The scores of the keyword fallback of the
  transformer analyzer sum to 1 for every text, and the scores of its model path sum to
  1 whenever the scores read from the model's output do. The VADER analyzer returns the
  three values of its library unchanged, so its scores sum to what the library's values
  sum to. The combined scores of either combiner sum to 1 whenever the accumulated
  total is strictly positive.
\<close>

theorem score_sums:
  "(- 1 \<le> p \<and> p \<le> 1 \<longrightarrow> sum_values (textblob_scores p) = 1)
   \<and> sum_values (scores (fallback_analysis txt)) = 1
   \<and> sum_values (scores (vader_result s)) = pos s + neg s + neu s
   \<and> (sum_values (foldl parse_result \<lparr>positive = 0, negative = 0, neutral = 0\<rparr> results) = 1
        \<longrightarrow> sum_values (parse_results results) = 1)
   \<and> (EnsembleAnalyzer_analyze E txt = Inr r
        \<and> 0 < sum_values (snd (run_analyzers (weight_get (weights E)) txt (analyzers E)
                                  ([], zero_scores)))
        \<longrightarrow> sum_values (scores r) = 1)
   \<and> (0 < sum_values (snd (run_analyzers get_analyzer_weight txt (analyzers S)
                              ([], zero_scores)))
        \<longrightarrow> sum_values (scores (ensemble_analyze S txt)) = 1)"
proof -
  have e: "sum_values (scores r) = 1"
    if "EnsembleAnalyzer_analyze E txt = Inr r"
      and "0 < sum_values (snd (run_analyzers (weight_get (weights E)) txt (analyzers E)
                                  ([], zero_scores)))"
  proof -
    from that(1) have "r = combine (run_analyzers (weight_get (weights E)) txt (analyzers E)
                                ([], zero_scores))"
      by (auto simp: EnsembleAnalyzer_analyze_def split: if_splits)
    with that(2) show ?thesis by (simp add: scores_combine sum_normalize)
  qed
  have f: "sum_values (scores (ensemble_analyze S txt)) = 1"
    if "0 < sum_values (snd (run_analyzers get_analyzer_weight txt (analyzers S)
                              ([], zero_scores)))"
    using that by (simp add: ensemble_analyze_def scores_combine sum_normalize)
  show ?thesis
    using sum_textblob sum_fallback sum_vader sum_parse_results e f by blast
qed

theorem score_sums_witness:
  "- 1 \<le> (1 / 2 :: real) \<and> (1 / 2 :: real) \<le> 1 \<and> sum_values (textblob_scores (1 / 2)) = 1
   \<and> sum_values (foldl parse_result \<lparr>positive = 0, negative = 0, neutral = 0\<rparr> model_output) = 1
   \<and> sum_values (parse_results model_output) = 1
   \<and> EnsembleAnalyzer_analyze tied_ensemble ''ok'' = Inr tied_result
   \<and> 0 < sum_values (snd (run_analyzers (weight_get (weights tied_ensemble)) ''ok''
                             (analyzers tied_ensemble) ([], zero_scores)))
   \<and> sum_values (scores tied_result) = 1
   \<and> 0 < sum_values (snd (run_analyzers get_analyzer_weight ''ok''
                             (analyzers tied_analyzer) ([], zero_scores)))
   \<and> sum_values (scores (ensemble_analyze tied_analyzer ''ok'')) = 1"
proof -
  have m: "sum_values (foldl parse_result \<lparr>positive = 0, negative = 0, neutral = 0\<rparr> model_output) = 1"
    by (simp add: parse_model_output sum_values_def)
  show ?thesis
    using score_sums [of "1 / 2" "''ok''" _ model_output tied_ensemble tied_result
          tied_analyzer]
      m tied_eval tied_total tied_total'
    by simp
qed

subsection \<open>C3: the thresholds of the labels\<close>

text \<open>
  The claim C3 says that every analyzer follows the deadband rule with the inclusive
  thresholds +0.05 and -0.05. The TextBlob analyzer does not: at polarity 0.05 the rule
  gives positive and the analyzer returns neutral.
\<close>

theorem textblob_boundary_counterexample:
  "spec_deadband_label (5 / 100) = POSITIVE \<and> sentiment (textblob_result (5 / 100)) = NEUTRAL"
  by (simp add: spec_deadband_label_def textblob_result_def textblob_sentiment_def)

text \<open>
  C3, as the code has it: the VADER analyzer follows the deadband rule on the compound
  score. The TextBlob analyzer labels a polarity above 0.1 positive, below -0.1 negative
  and everything else neutral, so it agrees with the deadband rule exactly outside the
  two bands from 0.05 to 0.1 and from -0.1 to -0.05. (The transformer analyzer has no
  scalar score: its label is the maximal score of the model, or the result of the
  keyword counts.)
\<close>

theorem label_thresholds:
  "sentiment (vader_result s) = spec_deadband_label (compound s)
   \<and> sentiment (textblob_result p) =
       (if p > 1 / 10 then POSITIVE else if p < - (1 / 10) then NEGATIVE else NEUTRAL)
   \<and> (sentiment (textblob_result p) = spec_deadband_label p)
       = (\<not> (5 / 100 \<le> p \<and> p \<le> 1 / 10) \<and> \<not> (- (1 / 10) \<le> p \<and> p \<le> - (5 / 100)))"
  by (auto simp: vader_result_def spec_deadband_label_def textblob_result_def textblob_sentiment_def)

subsection \<open>C4: the transformer analyzer never raises\<close>

text \<open>
  C4: for every text and every state of the model, \<^verbatim>\<open>TransformerAnalyzer.analyze\<close> returns
  a result. When the model was not loaded the result is the keyword fallback on the
  text. When the model is loaded it is called on the first 512 characters of the text;
  if it raises, the result is the keyword fallback on these characters, otherwise the
  scores parsed from its output with their first maximal label.
\<close>

theorem transformer_analyze_never_raises:
  "(\<exists>r. transformer_analyze pl txt = Inr r)
   \<and> (pl = None \<longrightarrow> transformer_analyze pl txt = Inr (fallback_analysis txt))
   \<and> (\<forall>model e. pl = Some model \<and> model (take 512 txt) = Inl e \<longrightarrow>
         transformer_analyze pl txt = Inr (fallback_analysis (take 512 txt)))
   \<and> (\<forall>model results. pl = Some model \<and> model (take 512 txt) = Inr results \<longrightarrow>
         transformer_analyze pl txt =
           Inr \<lparr>sentiment = max_key (parse_results results),
                confidence = get (parse_results results) (max_key (parse_results results)),
                scores = parse_results results\<rparr>)"
  by (auto simp: transformer_analyze_def truncate_take Let_def split: option.splits sum.splits)

theorem transformer_analyze_never_raises_witness:
  "length long_text > 512
   \<and> transformer_analyze None long_text = Inr (fallback_analysis long_text)
   \<and> broken_model (take 512 long_text) = Inl (LibraryError ''inference'')
   \<and> transformer_analyze (Some broken_model) long_text
       = Inr (fallback_analysis (take 512 long_text))"
  using transformer_analyze_never_raises [of None long_text]
    transformer_analyze_never_raises [of "Some broken_model" long_text]
  by (simp add: long_text_def broken_model_def)

subsection \<open>C7: the neutral component of the TextBlob analyzer\<close>

text \<open>
  The claim C7 says that the neutral component is always strictly positive. At polarity
  1 it is 0.
\<close>

theorem textblob_neutral_counterexample:
  "scores (textblob_result 1) = \<lparr>positive = 1, negative = 0, neutral = 0\<rparr>"
  by (simp add: textblob_result_def textblob_scores_def textblob_raw_scores_def)

text \<open>
  C7, as the code has it: for a polarity other than 0 the neutral component is
  \<open>(1 - |polarity|) / 2\<close> before the three scores are divided by their total, and 0.34 at
  polarity 0. For a polarity between -1 and 1 the neutral score is strictly positive
  exactly when \<open>|polarity| < 1\<close>; at polarity 1 and -1 it is 0.
\<close>

theorem textblob_neutral_component:
  "(p \<noteq> 0 \<longrightarrow> neutral (textblob_raw_scores p) = (1 - \<bar>p\<bar>) * (1 / 2))
   \<and> neutral (textblob_raw_scores 0) = 34 / 100
   \<and> (- 1 \<le> p \<and> p \<le> 1 \<longrightarrow> (0 < neutral (textblob_scores p)) = (\<bar>p\<bar> < 1))
   \<and> (\<bar>p\<bar> = 1 \<longrightarrow> neutral (textblob_scores p) = 0)"
proof -
  have a: "p \<noteq> 0 \<longrightarrow> neutral (textblob_raw_scores p) = (1 - \<bar>p\<bar>) * (1 / 2)"
    by (auto simp: textblob_raw_scores_def Let_def)
  have b: "neutral (textblob_raw_scores 0) = 34 / 100"
    by (simp add: textblob_raw_scores_def)
  have c: "(0 < neutral (textblob_scores p)) = (\<bar>p\<bar> < 1)" if "- 1 \<le> p" "p \<le> 1"
  proof (cases "p = 0")
    case True
    then show ?thesis by (simp add: textblob_scores_def textblob_raw_scores_def)
  next
    case False
    with that have t: "0 < positive (textblob_raw_scores p) + negative (textblob_raw_scores p) + neutral (textblob_raw_scores p)"
      using textblob_total_pos by simp
    then have "neutral (textblob_scores p) = neutral (textblob_raw_scores p) / (positive (textblob_raw_scores p) + negative (textblob_raw_scores p) + neutral (textblob_raw_scores p))"
      by (simp add: textblob_scores_def Let_def)
    with t have "(0 < neutral (textblob_scores p)) = (0 < neutral (textblob_raw_scores p))"
      by (simp add: zero_less_divide_iff)
    with False a show ?thesis by auto
  qed
  have d: "\<bar>p\<bar> = 1 \<longrightarrow> neutral (textblob_scores p) = 0"
    by (auto simp: textblob_scores_def textblob_raw_scores_def Let_def)
  from a b c d show ?thesis by blast
qed

theorem textblob_neutral_component_witness:
  "(1 / 2 :: real) \<noteq> 0 \<and> neutral (textblob_raw_scores (1 / 2)) = 1 / 4
   \<and> - 1 \<le> (1 / 2 :: real) \<and> (1 / 2 :: real) \<le> 1 \<and> 0 < neutral (textblob_scores (1 / 2))
   \<and> \<bar>- 1 :: real\<bar> = 1 \<and> neutral (textblob_scores (- 1)) = 0"
  using textblob_neutral_component [of "1 / 2"] textblob_neutral_component [of "- 1"]
  by simp

section \<open>Properties of \<^verbatim>\<open>SentimentAnalyzer\<close>\<close>

lemma analyze_text:
  "analyze lib el S txt = Inr r \<Longrightarrow>
   text' r = txt \<and> method' r = self_method S \<and> processing_time r = el"
  by (auto simp: analyze_def Let_def split: if_splits option.splits sum.splits)

lemma batch_from_length: "length (analyze_batch_from lib el S i texts) = length texts"
  by (induction texts arbitrary: i) simp_all

lemma batch_from_text: "map text' (analyze_batch_from lib el S i texts) = texts"
proof (induction texts arbitrary: i)
  case Nil
  then show ?case by simp
next
  case (Cons t ts)
  show ?case
  proof (cases "analyze lib (el i) S t")
    case (Inl e)
    with Cons show ?thesis by (simp add: error_result_def)
  next
    case (Inr r)
    with Cons analyze_text [OF Inr] show ?thesis by simp
  qed
qed

lemma batch_from_nth:
  "j < length texts \<Longrightarrow>
   analyze_batch_from lib el S i texts ! j =
     (case analyze lib (el (i + j)) S (texts ! j) of
        Inr r \<Rightarrow> r | Inl e \<Rightarrow> error_result S (texts ! j))"
proof (induction texts arbitrary: i j)
  case Nil
  then show ?case by simp
next
  case (Cons t ts)
  show ?case
  proof (cases j)
    case 0
    then show ?thesis by (simp split: sum.splits)
  next
    case (Suc k)
    with Cons.prems have "k < length ts" by simp
    from Cons.IH [OF this, of "Suc i"] Suc show ?thesis by (simp split: sum.splits)
  qed
qed

lemma batch_eval: "analyze_batch None (\<lambda>i. 1 / 100) quirk_analyzer batch_texts = batch_results"
  by code_simp

lemma stats_eval: "get_statistics batch_results = Some \<lparr>total_analyzed = 3,
    sentiment_distribution = \<lparr>positive = 1 / 3, negative = 1 / 3, neutral = 1 / 3\<rparr>,
    average_confidence = 1 / 2, total_processing_time = 2 / 100, average_processing_time = 2 / 300\<rparr>"
  by code_simp

lemma quirk_empty:
  "analyze None (1 / 100) quirk_analyzer '''' = Inl (LibraryError ''empty text'')"
  by code_simp

subsection \<open>C5: batches\<close>

text \<open>
  C5: for every list of texts, \<^verbatim>\<open>analyze_batch\<close> returns one result per text, in the
  order of the texts, each carrying its text. The result of an item is the result of
  \<^verbatim>\<open>analyze\<close> on it, or, when \<^verbatim>\<open>analyze\<close> raises, the neutral result with confidence 0
  and scores 0, 0, 1. For a batch that is not empty the statistics count every item,
  the substituted ones included, and the label distribution divides by that count; for
  the empty batch \<^verbatim>\<open>get_statistics\<close> returns the empty dictionary.
\<close>

theorem analyze_batch_complete:
  "length (analyze_batch lib el S texts) = length texts
   \<and> map text' (analyze_batch lib el S texts) = texts
   \<and> (\<forall>j. j < length texts \<longrightarrow>
         analyze_batch lib el S texts ! j =
           (case analyze lib (el j) S (texts ! j) of
              Inr r \<Rightarrow> r
            | Inl e \<Rightarrow> \<lparr>sentiment = NEUTRAL, confidence = 0,
                        scores = \<lparr>positive = 0, negative = 0, neutral = 1\<rparr>,
                        text' = texts ! j, method' = self_method S, processing_time = 0\<rparr>))
   \<and> (texts = [] \<longrightarrow> get_statistics (analyze_batch lib el S texts) = None)
   \<and> (texts \<noteq> [] \<longrightarrow>
         (\<exists>st. get_statistics (analyze_batch lib el S texts) = Some st
               \<and> total_analyzed st = length texts
               \<and> sentiment_distribution st =
                   \<lparr>positive = real (count_label POSITIVE (analyze_batch lib el S texts))
                                / real (length texts),
                    negative = real (count_label NEGATIVE (analyze_batch lib el S texts))
                                / real (length texts),
                    neutral = real (count_label NEUTRAL (analyze_batch lib el S texts))
                                / real (length texts)\<rparr>))"
proof -
  have len: "length (analyze_batch lib el S texts) = length texts"
    by (simp add: analyze_batch_def batch_from_length)
  have same: "map text' (analyze_batch lib el S texts) = texts"
    by (simp add: analyze_batch_def batch_from_text)
  have nth: "analyze_batch lib el S texts ! j =
           (case analyze lib (el j) S (texts ! j) of
              Inr r \<Rightarrow> r
            | Inl e \<Rightarrow> \<lparr>sentiment = NEUTRAL, confidence = 0,
                        scores = \<lparr>positive = 0, negative = 0, neutral = 1\<rparr>,
                        text' = texts ! j, method' = self_method S, processing_time = 0\<rparr>)"
    if "j < length texts" for j
    using batch_from_nth [OF that, of lib el S 0]
    by (simp add: analyze_batch_def error_result_def split: sum.splits)
  have empty: "get_statistics (analyze_batch lib el S texts) = None" if "texts = []"
    using that by (simp add: analyze_batch_def get_statistics_def)
  have stats: "\<exists>st. get_statistics (analyze_batch lib el S texts) = Some st
               \<and> total_analyzed st = length texts
               \<and> sentiment_distribution st =
                   \<lparr>positive = real (count_label POSITIVE (analyze_batch lib el S texts))
                                / real (length texts),
                    negative = real (count_label NEGATIVE (analyze_batch lib el S texts))
                                / real (length texts),
                    neutral = real (count_label NEUTRAL (analyze_batch lib el S texts))
                                / real (length texts)\<rparr>"
    if "texts \<noteq> []"
  proof -
    from that len have "analyze_batch lib el S texts \<noteq> []" by auto
    then show ?thesis by (simp add: get_statistics_def len)
  qed
  from len same nth empty stats show ?thesis by blast
qed

theorem analyze_batch_complete_witness:
  "batch_texts \<noteq> []
   \<and> analyze_batch None (\<lambda>i. 1 / 100) quirk_analyzer batch_texts = batch_results
   \<and> length batch_results = length batch_texts
   \<and> map text' batch_results = batch_texts
   \<and> analyze None (1 / 100) quirk_analyzer (batch_texts ! 1) = Inl (LibraryError ''empty text'')
   \<and> batch_results ! 1 =
       \<lparr>sentiment = NEUTRAL, confidence = 0,
        scores = \<lparr>positive = 0, negative = 0, neutral = 1\<rparr>,
        text' = '''', method' = ''vader'', processing_time = 0\<rparr>
   \<and> get_statistics batch_results =
       Some \<lparr>total_analyzed = 3,
             sentiment_distribution = \<lparr>positive = 1 / 3, negative = 1 / 3, neutral = 1 / 3\<rparr>,
             average_confidence = 1 / 2, total_processing_time = 2 / 100,
             average_processing_time = 2 / 300\<rparr>"
  using analyze_batch_complete [of None "\<lambda>i. 1 / 100" quirk_analyzer batch_texts]
    batch_eval stats_eval quirk_empty
  by (simp add: batch_texts_def batch_results_def)

subsection \<open>C9: the texts in a result\<close>

text \<open>
  The claim C9 says that a result carries the normalized text next to the original one.
  For the text \<^verbatim>\<open>Hello\<close> the classified text is \<^verbatim>\<open>hello\<close>; the result has the six
  fields of the dataclass, and none of them holds it.
\<close>

theorem result_fields_counterexample:
  "preprocess None (default_preprocessor None) ''Hello'' = ''hello''
   \<and> analyze None 0 calm_textblob_analyzer ''Hello'' =
       Inr \<lparr>sentiment = NEUTRAL, confidence = 1,
            scores = \<lparr>positive = 33 / 100, negative = 33 / 100, neutral = 34 / 100\<rparr>,
            text' = ''Hello'', method' = ''textblob'', processing_time = 0\<rparr>"
  by code_simp

text \<open>
  C9, as the code has it: every result returned by a single-text \<^verbatim>\<open>analyze\<close> call
  carries the original text in its field \<^verbatim>\<open>text\<close>, the name of the method and the
  measured time, next to label, confidence and scores. The normalized text is not a
  field of the result.
\<close>

theorem result_carries_original_text:
  assumes "analyze lib el S txt = Inr r"
  shows "text' r = txt \<and> method' r = self_method S \<and> processing_time r = el"
  using assms by (rule analyze_text)

theorem result_carries_original_text_witness:
  "analyze None 0 calm_textblob_analyzer ''Hello'' =
       Inr \<lparr>sentiment = NEUTRAL, confidence = 1,
            scores = \<lparr>positive = 33 / 100, negative = 33 / 100, neutral = 34 / 100\<rparr>,
            text' = ''Hello'', method' = ''textblob'', processing_time = 0\<rparr>
   \<and> self_method calm_textblob_analyzer = ''textblob''"
proof -
  have e: "analyze None 0 calm_textblob_analyzer ''Hello'' =
       Inr \<lparr>sentiment = NEUTRAL, confidence = 1,
            scores = \<lparr>positive = 33 / 100, negative = 33 / 100, neutral = 34 / 100\<rparr>,
            text' = ''Hello'', method' = ''textblob'', processing_time = 0\<rparr>"
    by code_simp
  from result_carries_original_text [OF e] e show ?thesis by simp
qed

section \<open>Properties of \<^verbatim>\<open>TextPreprocessor.preprocess\<close>\<close>

subsection \<open>Whitespace\<close>

lemma isspace_space: "isspace CHR '' ''"
  by (simp add: isspace_def code_def)

lemma ws_normal_collapse: "ws_normal b (collapse b s)"
  by (induction s arbitrary: b) (simp_all add: isspace_space)

lemma collapse_ws_normal: "ws_normal b s \<Longrightarrow> collapse b s = s"
  by (induction s arbitrary: b) (auto split: if_splits)

lemma ws_normal_dropWhile: "ws_normal b s \<Longrightarrow> ws_normal b' (dropWhile isspace s)"
  by (induction s arbitrary: b) (auto split: if_splits)

lemma ws_normal_prefix: "ws_normal b (u @ v) \<Longrightarrow> ws_normal b u"
  by (induction u arbitrary: b) (auto split: if_splits)

lemma rstrip_prefix: "s = rev (dropWhile P (rev s)) @ rev (takeWhile P (rev s))"
  by (metis rev_append rev_rev_ident takeWhile_dropWhile_id)

lemma ws_normal_strip: "ws_normal b s \<Longrightarrow> ws_normal False (strip s)"
proof -
  assume "ws_normal b s"
  then have a: "ws_normal False (dropWhile isspace s)" by (rule ws_normal_dropWhile)
  have "dropWhile isspace s = strip s @ rev (takeWhile isspace (rev (dropWhile isspace s)))"
    unfolding strip_def by (rule rstrip_prefix)
  with a show ?thesis by (metis ws_normal_prefix)
qed

lemma dropWhile_fixed: "s = [] \<or> \<not> P (hd s) \<Longrightarrow> dropWhile P s = s"
  by (cases s) auto

lemma hd_dropWhile_not: "dropWhile P s = [] \<or> \<not> P (hd (dropWhile P s))"
  by (induction s) auto

lemma strip_strip: "strip (strip s) = strip s"
proof -
  let ?a = "dropWhile isspace s"
  let ?r = "rev (dropWhile isspace (rev ?a))"
  have pre: "?a = ?r @ rev (takeWhile isspace (rev ?a))" by (rule rstrip_prefix)
  have "?r = [] \<or> \<not> isspace (hd ?r)"
  proof (cases "?r = []")
    case True
    then show ?thesis by simp
  next
    case False
    then have "hd ?r = hd ?a" using pre by (metis hd_append2)
    moreover from False have "?a \<noteq> []" by (metis dropWhile.simps(1) rev.simps(1))
    ultimately show ?thesis using hd_dropWhile_not [of isspace s] by metis
  qed
  then have "dropWhile isspace ?r = ?r" by (rule dropWhile_fixed)
  then show ?thesis by (simp add: strip_def)
qed

lemma whitespace_idem:
  "strip (collapse False (strip (collapse False s))) = strip (collapse False s)"
proof -
  have "ws_normal False (strip (collapse False s))"
    using ws_normal_collapse by (rule ws_normal_strip)
  then show ?thesis by (simp add: collapse_ws_normal strip_strip)
qed

lemma set_collapse: "set (collapse b s) \<subseteq> insert CHR '' '' (set s)"
  by (induction s arbitrary: b) auto

lemma set_strip: "set (strip s) \<subseteq> set s"
proof -
  have "set (strip s) \<subseteq> set (dropWhile isspace s)"
    unfolding strip_def using set_dropWhileD by fastforce
  then show ?thesis using set_dropWhileD by fastforce
qed


subsection \<open>Case folding\<close>

lemma lower_char_idem: "lower_char (lower_char c) = lower_char c"
  by (auto simp: lower_char_def code_def Let_def)

lemma lower_char_lt: "(lower_char c = CHR ''<'') = (c = CHR ''<'')"
proof
  assume a: "lower_char c = CHR ''<''"
  show "c = CHR ''<''"
  proof (rule ccontr)
    assume "c \<noteq> CHR ''<''"
    with a have "char_of (of_char c + 32 :: nat) = CHR ''<''"
      and u: "(65 \<le> (of_char c :: nat) \<and> (of_char c :: nat) \<le> 90) \<or> (192 \<le> (of_char c :: nat) \<and> (of_char c :: nat) \<le> 222)"
      by (auto simp: lower_char_def code_def Let_def split: if_splits)
    then have "(of_char (char_of (of_char c + 32 :: nat) :: char) :: nat) = of_char CHR ''<''" by simp
    with u show False by auto
  qed
next
  assume "c = CHR ''<''"
  then show "lower_char c = CHR ''<''" by (simp add: lower_char_def code_def)
qed

lemma lower_char_gt: "(lower_char c = CHR ''>'') = (c = CHR ''>'')"
proof
  assume a: "lower_char c = CHR ''>''"
  show "c = CHR ''>''"
  proof (rule ccontr)
    assume "c \<noteq> CHR ''>''"
    with a have "char_of (of_char c + 32 :: nat) = CHR ''>''"
      and u: "(65 \<le> (of_char c :: nat) \<and> (of_char c :: nat) \<le> 90) \<or> (192 \<le> (of_char c :: nat) \<and> (of_char c :: nat) \<le> 222)"
      by (auto simp: lower_char_def code_def Let_def split: if_splits)
    then have "(of_char (char_of (of_char c + 32 :: nat) :: char) :: nat) = of_char CHR ''>''" by simp
    with u show False by auto
  qed
next
  assume "c = CHR ''>''"
  then show "lower_char c = CHR ''>''" by (simp add: lower_char_def code_def)
qed

lemma special_kept_lower_char: "special_kept c \<Longrightarrow> special_kept (lower_char c)"
  by (auto simp: special_kept_def lower_char_def is_alpha_def is_digit_def isspace_def code_def Let_def)

lemma special_kept_space: "special_kept CHR '' ''"
  by (simp add: special_kept_def isspace_space)

lemma not_kept: "\<not> special_kept CHR ''<''" "\<not> special_kept CHR ''/''" "\<not> special_kept CHR ''@''"
  by (simp_all add: special_kept_def is_alpha_def is_digit_def isspace_def code_def)

subsection \<open>Texts in which a pattern does not match\<close>

lemma sub_empty_no_match:
  "(\<forall>p u v. s = u @ v \<longrightarrow> m p v = 0) \<Longrightarrow> sub_empty m prev 0 s = s"
proof (induction s arbitrary: prev)
  case Nil
  then show ?case by simp
next
  case (Cons c cs)
  from Cons.prems have "m prev (c # cs) = 0" by (metis append_Nil)
  moreover from Cons.prems have "\<forall>p u v. cs = u @ v \<longrightarrow> m p v = 0" by (metis append_Cons)
  ultimately show ?case using Cons.IH by simp
qed

lemma match_html_no_lt: "CHR ''<'' \<notin> set s \<Longrightarrow> match_html p s = 0"
  by (cases s) (auto simp: match_html_def Let_def)

lemma startswith_set: "startswith s p \<Longrightarrow> set p \<subseteq> set s"
  by (induction s p rule: startswith.induct) auto

lemma match_url_no_slash: "CHR ''/'' \<notin> set s \<Longrightarrow> match_url p s = 0"
proof -
  assume a: "CHR ''/'' \<notin> set s"
  have "\<not> startswith (drop k (drop 4 s)) ''://''" for k
  proof
    assume "startswith (drop k (drop 4 s)) ''://''"
    then have "set ''://'' \<subseteq> set (drop k (drop 4 s))" by (rule startswith_set)
    then have "CHR ''/'' \<in> set (drop k (drop 4 s))" by simp
    then have "CHR ''/'' \<in> set s" by (metis in_set_dropD)
    with a show False by simp
  qed
  then show ?thesis by (simp add: match_url_def Let_def)
qed

lemma match_email_no_at: "CHR ''@'' \<notin> set s \<Longrightarrow> match_email p s = 0"
proof -
  assume a: "CHR ''@'' \<notin> set s"
  have "char_at s k \<noteq> Some CHR ''@''" for k
    using a by (auto simp: char_at_def dest: nth_mem)
  then show ?thesis by (simp add: match_email_def Let_def)
qed

lemma remove_urls_fixed: "CHR ''/'' \<notin> set s \<Longrightarrow> remove_urls s = s"
  unfolding remove_urls_def
  by (rule sub_empty_no_match) (auto intro: match_url_no_slash)

lemma remove_emails_fixed: "CHR ''@'' \<notin> set s \<Longrightarrow> remove_emails s = s"
  unfolding remove_emails_def
  by (rule sub_empty_no_match) (auto intro: match_email_no_at)

lemma remove_html_fixed_no_lt: "CHR ''<'' \<notin> set s \<Longrightarrow> remove_html_tags s = s"
  unfolding remove_html_tags_def
  by (rule sub_empty_no_match) (auto intro: match_html_no_lt)


subsection \<open>Texts free of markup\<close>

lemma match_html_prev: "match_html p s = match_html None s"
  by (simp add: match_html_def)

lemma length_takeWhile_less_iff:
  "(length (takeWhile P xs) < length xs) = (\<exists>x \<in> set xs. \<not> P x)"
  by (induction xs) auto

lemma match_html_zero_iff:
  "(match_html p (c # cs) = 0) =
     (c \<noteq> CHR ''<'' \<or> cs = [] \<or> hd cs = CHR ''>'' \<or> CHR ''>'' \<notin> set cs)"
  by (cases cs) (auto simp: match_html_def Let_def length_takeWhile_less_iff)

lemma tagfree_suffix: "tagfree (u @ v) \<Longrightarrow> tagfree v"
  by (induction u) auto

lemma tagfree_prefix: "tagfree (u @ v) \<Longrightarrow> tagfree u"
proof (induction u)
  case Nil
  then show ?case by simp
next
  case (Cons c u)
  from Cons.prems have m: "match_html None (c # (u @ v)) = 0" and t: "tagfree (u @ v)" by simp_all
  from m have "match_html None (c # u) = 0"
    unfolding match_html_zero_iff by (cases u) auto
  with Cons.IH [OF t] show ?case by simp
qed

lemma tagfree_match: "tagfree s \<Longrightarrow> match_html p s = 0"
  by (cases s) (simp_all add: match_html_prev [of p] match_html_def)

lemma tagfree_fixed: "tagfree s \<Longrightarrow> remove_html_tags s = s"
  unfolding remove_html_tags_def
  by (rule sub_empty_no_match) (auto dest: tagfree_suffix intro: tagfree_match)

lemma sub_empty_html_skip:
  "sub_empty match_html p k s = sub_empty match_html q 0 (drop k s)"
proof (induction s arbitrary: k p q)
  case Nil
  then show ?case by simp
next
  case (Cons c cs)
  show ?case
  proof (cases k)
    case 0
    then show ?thesis using match_html_prev [of p "c # cs"] match_html_prev [of q "c # cs"]
      by simp
  next
    case (Suc j)
    then show ?thesis using Cons.IH [of "Some c" j q] by simp
  qed
qed

lemma tagfree_sub_empty:
  "tagfree (sub_empty match_html p 0 s) \<and> set (sub_empty match_html p 0 s) \<subseteq> set s"
proof (induction s arbitrary: p rule: length_induct)
  case (1 s)
  show ?case
  proof (cases s)
    case Nil
    then show ?thesis by simp
  next
    case (Cons c cs)
    show ?thesis
    proof (cases "match_html p (c # cs)")
      case 0
      have len: "length cs < length s" using Cons by simp
      let ?R = "sub_empty match_html (Some c) 0 cs"
      from 1 len have R: "tagfree ?R" "set ?R \<subseteq> set cs" by blast+
      from 0 Cons have out: "sub_empty match_html p 0 s = c # ?R" by simp
      have "match_html None (c # ?R) = 0"
      proof (cases "c = CHR ''<''")
        case False
        then show ?thesis by (simp add: match_html_zero_iff)
      next
        case True
        from 0 consider "cs = []" | d ds where "cs = d # ds" "d = CHR ''>''"
          | "CHR ''>'' \<notin> set cs"
          unfolding match_html_zero_iff using True by (cases cs) auto
        then show ?thesis
        proof cases
          case 1
          then show ?thesis by (simp add: match_html_zero_iff)
        next
          case 2
          then have "?R = CHR ''>'' # sub_empty match_html (Some d) 0 ds"
            by (simp add: match_html_def)
          then show ?thesis by (simp add: match_html_zero_iff)
        next
          case 3
          with R(2) have "CHR ''>'' \<notin> set ?R" by auto
          then show ?thesis by (simp add: match_html_zero_iff)
        qed
      qed
      with R out show ?thesis using Cons by auto
    next
      case (Suc j)
      with Cons have "sub_empty match_html p 0 s = sub_empty match_html (Some c) j cs" by simp
      then have out: "sub_empty match_html p 0 s = sub_empty match_html None 0 (drop j cs)"
        using sub_empty_html_skip [of "Some c" j cs None] by simp
      have "length (drop j cs) < length s" using Cons by simp
      with 1 have "tagfree (sub_empty match_html None 0 (drop j cs))"
        "set (sub_empty match_html None 0 (drop j cs)) \<subseteq> set (drop j cs)" by blast+
      moreover have "set (drop j cs) \<subseteq> set s" using Cons by (auto dest: in_set_dropD)
      ultimately show ?thesis using out by auto
    qed
  qed
qed

lemma tagfree_remove_html: "tagfree (remove_html_tags s)"
  by (simp add: remove_html_tags_def tagfree_sub_empty)

lemma match_html_lower: "match_html p (lower s) = match_html p s"
proof (cases s)
  case Nil
  then show ?thesis by (simp add: lower_def)
next
  case (Cons c cs)
  have "takeWhile (\<lambda>x. x \<noteq> CHR ''>'') (map lower_char cs)
          = map lower_char (takeWhile (\<lambda>x. x \<noteq> CHR ''>'') cs)"
    by (simp add: takeWhile_map comp_def lower_char_gt)
  with Cons show ?thesis by (simp add: lower_def match_html_def Let_def lower_char_lt)
qed

lemma tagfree_lower: "tagfree s \<Longrightarrow> tagfree (lower s)"
proof (induction s)
  case Nil
  then show ?case by (simp add: lower_def)
next
  case (Cons c cs)
  from Cons have "tagfree (lower cs)" by simp
  moreover have "match_html None (lower (c # cs)) = 0"
    using Cons.prems by (simp add: match_html_lower)
  ultimately show ?case by (simp add: lower_def)
qed

lemma not_space_gt: "\<not> isspace CHR ''>''" "\<not> isspace CHR ''<''"
  by (simp_all add: isspace_def code_def)

lemma tagfree_collapse: "tagfree s \<Longrightarrow> tagfree (collapse b s)"
proof (induction s arbitrary: b)
  case Nil
  then show ?case by simp
next
  case (Cons c cs)
  from Cons.prems have m: "match_html None (c # cs) = 0" and t: "tagfree cs" by simp_all
  show ?case
  proof (cases "isspace c")
    case True
    then show ?thesis using Cons.IH [OF t, of True] by (simp add: match_html_zero_iff)
  next
    case False
    have "match_html None (c # collapse False cs) = 0"
    proof (cases "c = CHR ''<''")
      case False
      then show ?thesis by (simp add: match_html_zero_iff)
    next
      case True
      from m consider "cs = []" | d ds where "cs = d # ds" "d = CHR ''>''"
        | "CHR ''>'' \<notin> set cs"
        unfolding match_html_zero_iff using True by (cases cs) auto
      then show ?thesis
      proof cases
        case 1
        then show ?thesis by (simp add: match_html_zero_iff)
      next
        case 2
        then show ?thesis by (simp add: match_html_zero_iff not_space_gt)
      next
        case 3
        with set_collapse [of False cs] have "CHR ''>'' \<notin> set (collapse False cs)" by auto
        then show ?thesis by (simp add: match_html_zero_iff)
      qed
    qed
    with False Cons.IH [OF t, of False] show ?thesis by simp
  qed
qed

lemma tagfree_strip: "tagfree s \<Longrightarrow> tagfree (strip s)"
proof -
  assume "tagfree s"
  then have "tagfree (takeWhile isspace s @ dropWhile isspace s)" by simp
  then have a: "tagfree (dropWhile isspace s)" by (rule tagfree_suffix)
  have "dropWhile isspace s = strip s @ rev (takeWhile isspace (rev (dropWhile isspace s)))"
    unfolding strip_def by (rule rstrip_prefix)
  with a show ?thesis by (metis tagfree_prefix)
qed

lemma lower_char_space: "lower_char CHR '' '' = CHR '' ''"
  by (simp add: lower_char_def code_def)


subsection \<open>C6: idempotence\<close>

text \<open>
  The claim C6 says that \<^verbatim>\<open>preprocess\<close> is idempotent for every text and every
  configuration. With the default configuration the text \<^verbatim>\<open>HTTP://a\<close> is a
  counterexample: the pattern for URLs is case sensitive and runs before the case
  folding, so the first pass gives \<^verbatim>\<open>http://a\<close>, which the second pass removes. Case
  folding is not the only cause: with case and punctuation kept, removing the e-mail
  address from \<^verbatim>\<open>http:a@b.co//x.com\<close> leaves the URL \<^verbatim>\<open>http://x.com\<close>, which the second
  pass removes.
\<close>

theorem preprocess_not_idempotent:
  "preprocess None (default_preprocessor None) ''HTTP://a'' = ''http://a''
   \<and> preprocess None (default_preprocessor None) ''http://a'' = []
   \<and> preprocess None cased_preprocessor ''http:a@b.co//x.com'' = ''http://x.com''
   \<and> preprocess None cased_preprocessor ''http://x.com'' = []"
  by code_simp

text \<open>
  C6, as the code has it: \<^verbatim>\<open>preprocess\<close> is idempotent for every text and every
  configuration in which the NLTK stage does not run and in which either the special
  characters are removed, or neither URLs nor e-mail addresses are.
\<close>

theorem preprocess_idempotent:
  assumes "lib = None \<or> \<not> (remove_stopwords c \<or> lemmatize c \<or> stem c)"
    and "remove_special_chars c \<or> (\<not> remove_urls_flag c \<and> \<not> remove_emails_flag c)"
  shows "preprocess lib c (preprocess lib c x) = preprocess lib c x"
proof (cases "x = []")
  case True
  then show ?thesis by (simp add: preprocess_def)
next
  case False
  define t1 where "t1 = (if remove_html c then remove_html_tags x else x)"
  define t2 where "t2 = (if remove_urls_flag c then remove_urls t1 else t1)"
  define t3 where "t3 = (if remove_emails_flag c then remove_emails t2 else t2)"
  define t4 where "t4 = (if remove_special_chars c then remove_special_characters t3 else t3)"
  define T where "T = (if lowercase c then lower t4 else t4)"
  define y where "y = strip (collapse False T)"
  have y: "preprocess lib c x = y"
    using False assms(1)
    by (auto simp: preprocess_def Let_def t1_def t2_def t3_def t4_def T_def y_def
        split: option.splits)
  have sub: "set y \<subseteq> insert CHR '' '' (set T)"
    unfolding y_def using set_strip [of "collapse False T"] set_collapse [of False T] by blast
  have kept: "\<forall>ch \<in> set y. special_kept ch" if "remove_special_chars c"
  proof -
    from that have "\<forall>ch \<in> set t4. special_kept ch"
      by (simp add: t4_def remove_special_characters_def)
    then have "\<forall>ch \<in> set T. special_kept ch"
      by (auto simp: T_def lower_def special_kept_lower_char)
    with sub show ?thesis using special_kept_space by auto
  qed
  have lowered: "lower y = y" if "lowercase c"
  proof -
    from that have "\<forall>ch \<in> set T. lower_char ch = ch"
      by (auto simp: T_def lower_def lower_char_idem)
    with sub have "\<forall>ch \<in> set y. lower_char ch = ch" using lower_char_space by auto
    then show ?thesis by (simp add: lower_def map_idI)
  qed
  have free: "tagfree y" if "remove_html c" "\<not> remove_special_chars c"
  proof -
    from that assms(2) have "t4 = remove_html_tags x"
      by (simp add: t4_def t3_def t2_def t1_def)
    then have "tagfree t4" by (simp add: tagfree_remove_html)
    then have "tagfree T" by (simp add: T_def tagfree_lower)
    then show ?thesis unfolding y_def by (intro tagfree_strip tagfree_collapse)
  qed
  have W: "strip (collapse False y) = y"
    unfolding y_def by (rule whitespace_idem)
  have h: "(if remove_html c then remove_html_tags y else y) = y"
  proof (cases "remove_special_chars c")
    case True
    from kept [OF True] not_kept(1) have "CHR ''<'' \<notin> set y" by auto
    then show ?thesis by (simp add: remove_html_fixed_no_lt)
  next
    case False
    then show ?thesis using free by (auto simp: tagfree_fixed)
  qed
  have u: "(if remove_urls_flag c then remove_urls y else y) = y"
  proof (cases "remove_urls_flag c")
    case True
    with assms(2) have "remove_special_chars c" by auto
    from kept [OF this] not_kept(2) have "CHR ''/'' \<notin> set y" by auto
    then show ?thesis by (simp add: remove_urls_fixed)
  next
    case False
    then show ?thesis by simp
  qed
  have e: "(if remove_emails_flag c then remove_emails y else y) = y"
  proof (cases "remove_emails_flag c")
    case True
    with assms(2) have "remove_special_chars c" by auto
    from kept [OF this] not_kept(3) have "CHR ''@'' \<notin> set y" by auto
    then show ?thesis by (simp add: remove_emails_fixed)
  next
    case False
    then show ?thesis by simp
  qed
  have s: "(if remove_special_chars c then remove_special_characters y else y) = y"
    using kept by (auto simp: remove_special_characters_def)
  have l: "(if lowercase c then lower y else y) = y"
    using lowered by auto
  have "preprocess lib c y = y"
  proof (cases "y = []")
    case True
    then show ?thesis by (simp add: preprocess_def)
  next
    case False
    with assms h u e s l W show ?thesis
      by (auto simp: preprocess_def Let_def split: option.splits)
  qed
  with y show ?thesis by simp
qed

theorem preprocess_idempotent_witness:
  "remove_special_chars strict_preprocessor
   \<and> preprocess None strict_preprocessor ''HTTP://a <b>Hi</b>  you@x.org '' = ''http:a hi''
   \<and> preprocess None strict_preprocessor
         (preprocess None strict_preprocessor ''HTTP://a <b>Hi</b>  you@x.org '') = ''http:a hi''"
proof -
  have f: "remove_special_chars strict_preprocessor"
    by (simp add: strict_preprocessor_def TextPreprocessor_init_def)
  have e: "preprocess None strict_preprocessor ''HTTP://a <b>Hi</b>  you@x.org '' = ''http:a hi''"
    by code_simp
  from preprocess_idempotent [of None strict_preprocessor "''HTTP://a <b>Hi</b>  you@x.org ''"]
    f e show ?thesis by simp
qed

end
